theory Spec2Isabelle
  imports Main
begin

section \<open>JavaScript values\<close>

text \<open>
  The values that flow through \<^verbatim>\<open>root-extractor.js\<close>: results of field resolution, attribute
  reads and the assembled result objects. Numbers are modelled as integers (word counts), an
  object as the list of its own properties in insertion order.
\<close>

datatype jsval =
    JUndefined
  | JNull
  | JBool bool
  | JNum int
  | JStr string
  | JObj "(string \<times> jsval) list"

text \<open>JavaScript truthiness, as used by \<^verbatim>\<open>if (result)\<close>, \<^verbatim>\<open>&&\<close>, \<^verbatim>\<open>||\<close> and \<^verbatim>\<open>!x\<close>.\<close>

fun truthy :: "jsval \<Rightarrow> bool" where
  "truthy JUndefined = False"
| "truthy JNull = False"
| "truthy (JBool b) = b"
| "truthy (JNum n) = (n \<noteq> 0)"
| "truthy (JStr s) = (s \<noteq> [])"
| "truthy (JObj kvs) = True"

text \<open>The only exception the code of this file can raise by itself.\<close>

datatype error = TypeError

text \<open>
  Reading a property off a value, as the destructuring \<^verbatim>\<open>const { url, domain } = v\<close> does:
  \<^verbatim>\<open>null\<close> and \<^verbatim>\<open>undefined\<close> cannot be destructured, a primitive has no such property.
\<close>

fun js_prop :: "jsval \<Rightarrow> string \<Rightarrow> error + jsval" where
  "js_prop JUndefined k = Inl TypeError"
| "js_prop JNull k = Inl TypeError"
| "js_prop (JObj kvs) k = Inr (case map_of kvs k of None \<Rightarrow> JUndefined | Some v \<Rightarrow> v)"
| "js_prop v k = Inr JUndefined"

text \<open>
  \<^verbatim>\<open>String.prototype.trim\<close> strips white space and line terminators from both ends. A
  character of a string is a code unit below 256 here; the white space and line terminators
  of the language in that range are U+0009 to U+000D, the space U+0020 and the no-break
  space U+00A0.
\<close>

definition js_space :: "char \<Rightarrow> bool" where
  "js_space c =
     (c \<in> set [CHR 0x09, CHR 0x0A, CHR 0x0B, CHR 0x0C, CHR 0x0D, CHR 0x20, CHR 0xA0])"

definition trim :: "string \<Rightarrow> string" where
  "trim s = rev (dropWhile js_space (rev (dropWhile js_space s)))"

text \<open>\<^verbatim>\<open>Array.prototype.join(',')\<close> on an array of strings.\<close>

fun join_comma :: "string list \<Rightarrow> string" where
  "join_comma [] = []"
| "join_comma [x] = x"
| "join_comma (x # y # ys) = x @ '','' @ join_comma (y # ys)"

text \<open>An array read \<^verbatim>\<open>xs[i]\<close>: \<^verbatim>\<open>undefined\<close> (here \<open>None\<close>) out of range.\<close>

definition js_index :: "'a list \<Rightarrow> nat \<Rightarrow> 'a option" where
  "js_index xs i = (if i < length xs then Some (xs ! i) else None)"

text \<open>A destructuring default \<^verbatim>\<open>{ x = v }\<close>: the default stands in for an absent key.\<close>

fun js_default :: "'a \<Rightarrow> 'a option \<Rightarrow> 'a" where
  "js_default v None = v"
| "js_default v (Some x) = x"

text \<open>Sequencing of computations that may raise.\<close>

fun bindE :: "error + 'a \<Rightarrow> ('a \<Rightarrow> error + 'b) \<Rightarrow> error + 'b" where
  "bindE (Inl e) f = Inl e"
| "bindE (Inr x) f = f x"

section \<open>The document-query substrate\<close>

text \<open>
  The handle \<^verbatim>\<open>$\<close> is a third-party DOM library; the extractor only composes its operations.
  It is taken as a parameter: a record of operations over a document state \<open>'d\<close> (the live,
  mutable document) and node handles \<open>'n\<close>; a selection is a list of handles. An operation
  that mutates the document returns the new state.
\<close>

record ('d, 'n) substrate =
  dollar :: "'d \<Rightarrow> string option \<Rightarrow> 'n list"
    \<comment> \<open>\<^verbatim>\<open>$(selector)\<close>; \<open>None\<close> is \<^verbatim>\<open>$(undefined)\<close>\<close>
  dollar_in :: "'d \<Rightarrow> string \<Rightarrow> 'n list \<Rightarrow> 'n list"
    \<comment> \<open>\<^verbatim>\<open>$(selector, $content)\<close>: the matches within a region\<close>
  attr :: "'d \<Rightarrow> 'n list \<Rightarrow> string option \<Rightarrow> jsval"
    \<comment> \<open>\<^verbatim>\<open>$sel.attr(name)\<close>\<close>
  text_of :: "'d \<Rightarrow> 'n list \<Rightarrow> string"
    \<comment> \<open>\<^verbatim>\<open>$sel.text()\<close>\<close>
  remove_sel :: "'n list \<Rightarrow> 'd \<Rightarrow> 'd"
    \<comment> \<open>\<^verbatim>\<open>$sel.remove()\<close>\<close>
  new_div :: "'d \<Rightarrow> 'n list \<times> 'd"
    \<comment> \<open>\<^verbatim>\<open>$('<div></div>')\<close>\<close>
  append_to :: "'n list \<Rightarrow> 'n \<Rightarrow> 'd \<Rightarrow> 'd"
    \<comment> \<open>\<^verbatim>\<open>$wrapper.append(element)\<close>\<close>
  wrap :: "'n list \<Rightarrow> 'n list \<Rightarrow> 'd \<Rightarrow> 'd"
    \<comment> \<open>\<^verbatim>\<open>$content.wrap($div)\<close>\<close>
  parent :: "'d \<Rightarrow> 'n list \<Rightarrow> 'n list"
    \<comment> \<open>\<^verbatim>\<open>$content.parent()\<close>\<close>
  html :: "'d \<Rightarrow> 'n list \<Rightarrow> string"
    \<comment> \<open>\<^verbatim>\<open>$.html($content)\<close>\<close>
  static_text :: "'d \<Rightarrow> 'n list \<Rightarrow> string"
    \<comment> \<open>\<^verbatim>\<open>$.text($content)\<close>\<close>

section \<open>Extraction rules and options\<close>

text \<open>A selector is a string or an array of strings (a pair, or a multi-selector).\<close>

datatype selector = SStr string | SArr "string list"

text \<open>
  A transform value is a replacement tag name or a function of the node and \<^verbatim>\<open>$\<close>, which may
  mutate the document and returns a value.
\<close>

datatype ('d, 'n) transform =
    ToTag string
  | ByFunction "'n list \<Rightarrow> 'd \<Rightarrow> jsval \<times> 'd"

text \<open>
  The object form of a field's rules. \<open>selectors\<close> is the one key that rules always have;
  an absent optional key is \<open>None\<close>. \<open>transforms\<close> lists the entries of the map in the
  order of \<^verbatim>\<open>Reflect.ownKeys\<close>.
\<close>

record ('d, 'n) extraction_opts =
  selectors :: "selector list"
  clean :: "string list option"
  transforms :: "(string \<times> ('d, 'n) transform) list option"
  defaultCleaner :: "bool option"

text \<open>What an extractor definition holds for a field type: a string constant or rules.\<close>

datatype ('d, 'n) rule =
    Literal string
  | Rules "('d, 'n) extraction_opts"

text \<open>
  The field types of a result, and the values of \<^verbatim>\<open>contentType\<close>: the three that
  \<^verbatim>\<open>select\<close> knows, and \<open>Unknown\<close> for any other string.
\<close>

datatype field_type =
    Title | Content | Author | DatePublished | NextPageUrl | LeadImageUrl
  | Excerpt | Dek | WordCount | Direction | UrlAndDomain

datatype content_type = Html | Text | Markdown | Unknown

text \<open>The data of an extractor definition: its domain and \<^verbatim>\<open>extractor[type]\<close>.\<close>

record ('d, 'n) rules_def =
  domain :: string
  field_rules :: "field_type \<Rightarrow> ('d, 'n) rule option"

text \<open>
  The options bag. A key that may be absent is an option; \<open>o_type\<close> is the key \<^verbatim>\<open>type\<close>.
  The keys \<open>o_selectors\<close>, \<open>o_clean\<close>, \<open>o_transforms\<close> and \<open>o_defaultCleaner\<close> are those that
  the spreads \<^verbatim>\<open>{ ...opts, defaultCleaner }\<close> and \<^verbatim>\<open>{ ...opts, ...extractionOpts }\<close> write
  before a cleaner is called. Any other option of the caller lives in the record's extension.
\<close>

record ('d, 'n) opts =
  o_type :: "field_type option"
  extractor :: "('d, 'n) rules_def option"
  fallback :: "bool option"
  extractionOpts :: "('d, 'n) rule option"
  extractHtml :: "bool option"
  contentType :: "content_type option"
  contentOnly :: bool
  extractedTitle :: jsval
  title :: jsval
  content :: jsval
  excerpt :: jsval
  o_selectors :: "selector list option"
  o_clean :: "string list option"
  o_transforms :: "(string \<times> ('d, 'n) transform) list option"
  o_defaultCleaner :: "bool option"

text \<open>
  An extractor definition as passed to \<^verbatim>\<open>RootExtractor.extract\<close>: the data, and the
  \<^verbatim>\<open>extract\<close> method that a wildcard definition carries.
\<close>

record ('d, 'n) extractor_def = "('d, 'n) rules_def" +
  extract_method :: "('d, 'n) opts \<Rightarrow> 'd \<Rightarrow> jsval \<times> 'd"

section \<open>Collaborators outside this file\<close>

text \<open>
  The modules that \<^verbatim>\<open>root-extractor.js\<close> imports are parameters of the model:
  \<^verbatim>\<open>convertNodeTo\<close> (utils/dom), the registry \<^verbatim>\<open>Cleaners[type]\<close> (applied to a region in
  HTML mode and to a string otherwise), the Markdown converter and the Generic Extractor
  (its per-field functions and the definition itself, which is the wildcard).
\<close>

record ('d, 'n) env =
  convertNodeTo :: "'n list \<Rightarrow> string \<Rightarrow> 'd \<Rightarrow> 'd"
  Cleaners_region :: "field_type \<Rightarrow> 'n list \<Rightarrow> ('d, 'n) opts \<Rightarrow> 'd \<Rightarrow> 'n list \<times> 'd"
  Cleaners_value :: "field_type \<Rightarrow> string \<Rightarrow> ('d, 'n) opts \<Rightarrow> 'd \<Rightarrow> jsval \<times> 'd"
  turndown :: "string \<Rightarrow> string"
  GenericExtractor_field :: "field_type \<Rightarrow> ('d, 'n) opts \<Rightarrow> 'd \<Rightarrow> jsval \<times> 'd"
  GenericExtractor :: "('d, 'n) extractor_def"

section \<open>The content mutator\<close>

text \<open>\<^verbatim>\<open>cleanBySelectors($content, $, { clean })\<close>: remove elements by an array of selectors.\<close>

definition cleanBySelectors ::
  "('d, 'n) substrate \<Rightarrow> 'n list \<Rightarrow> ('d, 'n) extraction_opts \<Rightarrow> 'd \<Rightarrow> 'n list \<times> 'd" where
  "cleanBySelectors S c r d =
     (case clean r of
        None \<Rightarrow> (c, d)
      | Some cl \<Rightarrow> (c, remove_sel S (dollar_in S d (join_comma cl) c) d))"

text \<open>One entry of the transform map, applied to each match in turn.\<close>

fun transform_node ::
  "('d, 'n) env \<Rightarrow> ('d, 'n) transform \<Rightarrow> 'n \<Rightarrow> 'd \<Rightarrow> 'd" where
  "transform_node E (ToTag tag) node d = convertNodeTo E [node] tag d"
| "transform_node E (ByFunction f) node d =
     (case f [node] d of
        (JStr tag, d') \<Rightarrow> convertNodeTo E [node] tag d'
      | (_, d') \<Rightarrow> d')"

text \<open>\<^verbatim>\<open>transformElements($content, $, { transforms })\<close>: transform matching elements.\<close>

definition transformElements ::
  "('d, 'n) substrate \<Rightarrow> ('d, 'n) env \<Rightarrow> 'n list \<Rightarrow> ('d, 'n) extraction_opts \<Rightarrow> 'd
     \<Rightarrow> 'n list \<times> 'd" where
  "transformElements S E c r d =
     (case transforms r of
        None \<Rightarrow> (c, d)
      | Some ts \<Rightarrow>
          (c, fold (\<lambda>(key, v) d1. fold (transform_node E v) (dollar_in S d1 key c) d1) ts d))"

section \<open>Selector resolution\<close>

text \<open>The predicate that \<^verbatim>\<open>findMatchingSelector\<close> hands to \<^verbatim>\<open>selectors.find\<close>.\<close>

fun selector_matches ::
  "('d, 'n) substrate \<Rightarrow> 'd \<Rightarrow> bool \<Rightarrow> selector \<Rightarrow> error + bool" where
  "selector_matches S d eh (SArr xs) =
     (if eh then Inr (foldl (\<lambda>acc s. acc \<and> length (dollar S d (Some s)) > 0) True xs)
      else
        (let s = js_index xs 0; a = js_index xs 1 in
         if length (dollar S d s) = 1 \<and> truthy (attr S d (dollar S d s) a)
         then (case attr S d (dollar S d s) a of
                 JStr v \<Rightarrow> Inr (trim v \<noteq> [])
               | _ \<Rightarrow> Inl TypeError)
         else Inr False))"
| "selector_matches S d eh (SStr s) =
     Inr (length (dollar S d (Some s)) = 1 \<and> trim (text_of S d (dollar S d (Some s))) \<noteq> [])"

text \<open>\<^verbatim>\<open>Array.prototype.find\<close> with a predicate that may raise.\<close>

fun js_find :: "('a \<Rightarrow> error + bool) \<Rightarrow> 'a list \<Rightarrow> error + 'a option" where
  "js_find p [] = Inr None"
| "js_find p (x # xs) =
     (case p x of
        Inl e \<Rightarrow> Inl e
      | Inr b \<Rightarrow> if b then Inr (Some x) else js_find p xs)"

definition findMatchingSelector ::
  "('d, 'n) substrate \<Rightarrow> 'd \<Rightarrow> selector list \<Rightarrow> bool \<Rightarrow> error + selector option" where
  "findMatchingSelector S d sels eh = js_find (selector_matches S d eh) sels"

section \<open>The field resolver\<close>

text \<open>The spreads that build the options bag handed to a cleaner.\<close>

definition with_defaultCleaner :: "('d, 'n) opts \<Rightarrow> bool \<Rightarrow> ('d, 'n) opts" where
  "with_defaultCleaner opts dc = opts\<lparr>o_defaultCleaner := Some dc\<rparr>"

definition spread_rules :: "('d, 'n) opts \<Rightarrow> ('d, 'n) extraction_opts \<Rightarrow> ('d, 'n) opts" where
  "spread_rules opts r =
     opts\<lparr>o_selectors := Some (selectors r),
          o_clean := (case clean r of None \<Rightarrow> o_clean opts | Some c \<Rightarrow> Some c),
          o_transforms := (case transforms r of None \<Rightarrow> o_transforms opts | Some t \<Rightarrow> Some t),
          o_defaultCleaner :=
            (case defaultCleaner r of None \<Rightarrow> o_defaultCleaner opts | Some b \<Rightarrow> Some b)\<rparr>"

text \<open>
  The region that the branch \<^verbatim>\<open>if (extractHtml) { ... }\<close> of \<^verbatim>\<open>select\<close> builds for the
  matching selector \<open>m\<close>: the matches of an array moved into a fresh wrapper, or the match of
  a string; then wrapped in a \<^verbatim>\<open>div\<close>, whose handle is the region.
\<close>

definition html_region ::
  "('d, 'n) substrate \<Rightarrow> selector \<Rightarrow> 'd \<Rightarrow> 'n list \<times> 'd" where
  "html_region S m d =
     (let (c0, d1) =
            (case m of
               SArr xs \<Rightarrow>
                 (let c = dollar S d (Some (join_comma xs));
                      (w, d') = new_div S d
                  in (w, fold (\<lambda>element. append_to S w element) c d'))
             | SStr s \<Rightarrow> (dollar S d (Some s), d));
          (dv, d2) = new_div S d1;
          d3 = wrap S c0 dv d2
      in (parent S d3 c0, d3))"

text \<open>
  The three renderings of a region; for any other \<^verbatim>\<open>contentType\<close> none of the three
  \<^verbatim>\<open>return\<close>s is taken.
\<close>

fun render_region ::
  "('d, 'n) substrate \<Rightarrow> ('d, 'n) env \<Rightarrow> content_type \<Rightarrow> 'd \<Rightarrow> 'n list \<Rightarrow> jsval option" where
  "render_region S E Html d c = Some (JStr (html S d c))"
| "render_region S E Text d c = Some (JStr (static_text S d c))"
| "render_region S E Markdown d c = Some (JStr (turndown E (html S d c)))"
| "render_region S E Unknown d c = None"

text \<open>
  The branch \<^verbatim>\<open>if (extractHtml) { ... }\<close>: transform, clean, the field's cleaner, render.
  The result \<open>None\<close> says that the branch ended without a \<^verbatim>\<open>return\<close>.
\<close>

definition select_html ::
  "('d, 'n) substrate \<Rightarrow> ('d, 'n) env \<Rightarrow> ('d, 'n) opts \<Rightarrow> ('d, 'n) extraction_opts
     \<Rightarrow> selector \<Rightarrow> 'd \<Rightarrow> error + (jsval option \<times> 'd)" where
  "select_html S E opts r m d =
     (let dc = js_default True (defaultCleaner r);
          ct = js_default Html (contentType opts);
          (c1, d3) = html_region S m d;
          (c2, d4) = transformElements S E c1 r d3;
          (c3, d5) = cleanBySelectors S c2 r d4
      in case o_type opts of
           None \<Rightarrow> Inl TypeError
         | Some t \<Rightarrow>
             (let (c4, d6) = Cleaners_region E t c3 (with_defaultCleaner opts dc) d5
              in Inr (render_region S E ct d6 c4, d6)))"

text \<open>
  The rest of \<^verbatim>\<open>select\<close>: the attribute of a pair selector, or the text of the matched
  node, then the field's cleaner unless the rules switch it off.
\<close>

definition select_value ::
  "('d, 'n) substrate \<Rightarrow> ('d, 'n) env \<Rightarrow> ('d, 'n) opts \<Rightarrow> ('d, 'n) extraction_opts
     \<Rightarrow> selector \<Rightarrow> 'd \<Rightarrow> error + (jsval \<times> 'd)" where
  "select_value S E opts r m d =
     (let dc = js_default True (defaultCleaner r) in
      bindE
        (case m of
           SArr xs \<Rightarrow>
             (let s = js_index xs 0; a = js_index xs 1 in
              case attr S d (dollar S d s) a of
                JStr v \<Rightarrow> Inr (trim v, d)
              | _ \<Rightarrow> Inl TypeError)
         | SStr s \<Rightarrow>
             (let node = dollar S d (Some s);
                  (node1, d1) = cleanBySelectors S node r d;
                  (node2, d2) = transformElements S E node1 r d1
              in Inr (trim (text_of S d2 node2), d2)))
        (\<lambda>(result, d').
           if dc then
             (case o_type opts of
                None \<Rightarrow> Inl TypeError
              | Some t \<Rightarrow> Inr (Cleaners_value E t result (spread_rules opts r) d'))
           else Inr (JStr result, d')))"

text \<open>\<^verbatim>\<open>select(opts)\<close>. The document is threaded through; \<^verbatim>\<open>null\<close> is \<open>JNull\<close>.\<close>

definition select ::
  "('d, 'n) substrate \<Rightarrow> ('d, 'n) env \<Rightarrow> ('d, 'n) opts \<Rightarrow> 'd \<Rightarrow> error + (jsval \<times> 'd)" where
  "select S E opts d =
     (let eh = js_default False (extractHtml opts) in
      case extractionOpts opts of
        None \<Rightarrow> Inr (JNull, d)
      | Some (Literal s) \<Rightarrow> if s = [] then Inr (JNull, d) else Inr (JStr s, d)
      | Some (Rules r) \<Rightarrow>
          bindE (findMatchingSelector S d (selectors r) eh)
            (\<lambda>found.
               case found of
                 None \<Rightarrow> Inr (JNull, d)
               | Some m \<Rightarrow>
                   if m = SStr [] then Inr (JNull, d)
                   else if eh then
                     bindE (select_html S E opts r m d)
                       (\<lambda>(rendered, d').
                          case rendered of
                            Some v \<Rightarrow> Inr (v, d')
                          | None \<Rightarrow> select_value S E opts r m d')
                   else select_value S E opts r m d))"

section \<open>The orchestrator\<close>

text \<open>\<^verbatim>\<open>extractResult(opts)\<close>: the custom rules first, then the Generic Extractor.\<close>

definition extractResult ::
  "('d, 'n) substrate \<Rightarrow> ('d, 'n) env \<Rightarrow> ('d, 'n) opts \<Rightarrow> 'd \<Rightarrow> error + (jsval \<times> 'd)" where
  "extractResult S E opts d =
     (let fb = js_default True (fallback opts) in
      case extractor opts of
        None \<Rightarrow> Inl TypeError
      | Some ex \<Rightarrow>
          bindE
            (select S E
               (opts\<lparr>extractionOpts :=
                  (case o_type opts of None \<Rightarrow> None | Some t \<Rightarrow> field_rules ex t)\<rparr>) d)
            (\<lambda>(result, d1).
               if truthy result then Inr (result, d1)
               else if fb then
                 (case o_type opts of
                    None \<Rightarrow> Inl TypeError
                  | Some t \<Rightarrow> Inr (GenericExtractor_field E t opts d1))
               else Inr (JNull, d1)))"

text \<open>
  \<^verbatim>\<open>RootExtractor.extract(extractor = GenericExtractor, opts)\<close>. An omitted definition is
  the Generic Extractor; a definition whose domain is \<^verbatim>\<open>'*'\<close> runs its own \<^verbatim>\<open>extract\<close>.
\<close>

definition RootExtractor_extract ::
  "('d, 'n) substrate \<Rightarrow> ('d, 'n) env \<Rightarrow> ('d, 'n) extractor_def option \<Rightarrow> ('d, 'n) opts \<Rightarrow> 'd
     \<Rightarrow> error + (jsval \<times> 'd)" where
  "RootExtractor_extract S E exo opts0 d =
     (let ex = (case exo of None \<Rightarrow> GenericExtractor E | Some e \<Rightarrow> e);
          ct = js_default Html (contentType opts0)
      in
      if domain ex = ''*'' then Inr (extract_method ex opts0 d)
      else
        (let opts = opts0\<lparr>extractor := Some \<lparr>domain = domain ex, field_rules = field_rules ex\<rparr>\<rparr>
         in
         if contentOnly opts0 then
           bindE
             (extractResult S E
                (opts\<lparr>o_type := Some Content, extractHtml := Some True,
                      title := extractedTitle opts0, contentType := Some ct\<rparr>) d)
             (\<lambda>(v_content, d1). Inr (JObj [(''content'', v_content)], d1))
         else
           bindE (extractResult S E (opts\<lparr>o_type := Some Title\<rparr>) d)
             (\<lambda>(v_title, d1).
           bindE (extractResult S E (opts\<lparr>o_type := Some DatePublished\<rparr>) d1)
             (\<lambda>(v_date_published, d2).
           bindE (extractResult S E (opts\<lparr>o_type := Some Author\<rparr>) d2)
             (\<lambda>(v_author, d3).
           bindE (extractResult S E (opts\<lparr>o_type := Some NextPageUrl\<rparr>) d3)
             (\<lambda>(v_next_page_url, d4).
           bindE (extractResult S E
                    (opts\<lparr>o_type := Some Content, extractHtml := Some True, title := v_title\<rparr>) d4)
             (\<lambda>(v_content, d5).
           bindE (extractResult S E (opts\<lparr>o_type := Some LeadImageUrl, content := v_content\<rparr>) d5)
             (\<lambda>(v_lead_image_url, d6).
           bindE (extractResult S E (opts\<lparr>o_type := Some Excerpt, content := v_content\<rparr>) d6)
             (\<lambda>(v_excerpt, d7).
           bindE (extractResult S E
                    (opts\<lparr>o_type := Some Dek, content := v_content, excerpt := v_excerpt\<rparr>) d7)
             (\<lambda>(v_dek, d8).
           bindE (extractResult S E (opts\<lparr>o_type := Some WordCount, content := v_content\<rparr>) d8)
             (\<lambda>(v_word_count, d9).
           bindE (extractResult S E (opts\<lparr>o_type := Some Direction, title := v_title\<rparr>) d9)
             (\<lambda>(v_direction, d10).
           bindE (extractResult S E (opts\<lparr>o_type := Some UrlAndDomain\<rparr>) d10)
             (\<lambda>(r, d11).
           bindE (js_prop (if truthy r then r else JObj [(''url'', JNull), (''domain'', JNull)]) ''url'')
             (\<lambda>v_url.
           bindE (js_prop (if truthy r then r else JObj [(''url'', JNull), (''domain'', JNull)]) ''domain'')
             (\<lambda>v_domain.
              Inr (JObj [(''title'', v_title), (''content'', v_content), (''author'', v_author),
                         (''date_published'', v_date_published),
                         (''lead_image_url'', v_lead_image_url), (''dek'', v_dek),
                         (''next_page_url'', v_next_page_url), (''url'', v_url),
                         (''domain'', v_domain), (''excerpt'', v_excerpt),
                         (''word_count'', v_word_count), (''direction'', v_direction)],
                   d11))))))))))))))))"

section \<open>A model of the substrate: element trees\<close>

text \<open>
  An element carries a handle (its identity), a tag name, its attributes and its children;
  the other nodes are text.
\<close>

datatype node = Elem nat string "(string \<times> string) list" "node list" | Txt string

text \<open>
  The state of a document: its top-level nodes, the detached fragments that
  \<^verbatim>\<open>$('<div></div>')\<close> creates, and the next unused handle.
\<close>

record doc =
  document :: "node list"
  fragments :: "node list"
  next_id :: nat

text \<open>
  What a selector may look at to decide whether an element matches: the element itself and
  its place in the document. A place lists, from the element outwards, the siblings before
  and after in document order and the element that owns them (none at the top level). A
  selector engine takes the selector, the handles of the context (empty for the whole
  document), the place and the element. The engine of the library is not fixed: the trees
  take one as a parameter.
\<close>

type_synonym label = "nat \<times> string \<times> (string \<times> string) list"

type_synonym crumb = "node list \<times> node list \<times> label option"

type_synonym engine = "string \<Rightarrow> nat list \<Rightarrow> crumb list \<Rightarrow> node \<Rightarrow> bool"

fun label :: "node \<Rightarrow> label option" where
  "label (Txt s) = None"
| "label (Elem i t as ks) = Some (i, t, as)"

definition spine :: "crumb list \<Rightarrow> label option list" where
  "spine pos = map (\<lambda>(lefts, rights, owner). owner) pos"

text \<open>
  The elements that the engine matches for \<open>q\<close>, in document order and each once.
  \<open>inside\<close> says whether the node lies below an element of the context \<open>ctx\<close>.
\<close>

fun within :: "engine \<Rightarrow> string \<Rightarrow> nat list \<Rightarrow> bool \<Rightarrow> crumb list \<Rightarrow> node \<Rightarrow> nat list"
  and within_kids ::
    "engine \<Rightarrow> string \<Rightarrow> nat list \<Rightarrow> bool \<Rightarrow> crumb list \<Rightarrow> label option \<Rightarrow> node list
       \<Rightarrow> node list \<Rightarrow> nat list" where
  "within sem q ctx inside pos (Txt s) = []"
| "within sem q ctx inside pos (Elem i t as ks) =
     (if inside \<and> sem q ctx pos (Elem i t as ks) then [i] else [])
       @ within_kids sem q ctx (inside \<or> i \<in> set ctx) pos (Some (i, t, as)) [] ks"
| "within_kids sem q ctx inside up owner lefts [] = []"
| "within_kids sem q ctx inside up owner lefts (k # ks) =
     within sem q ctx inside ((lefts, ks, owner) # up) k
       @ within_kids sem q ctx inside up owner (lefts @ [k]) ks"

text \<open>The same over detached fragments, each a root of its own.\<close>

fun within_roots :: "engine \<Rightarrow> string \<Rightarrow> nat list \<Rightarrow> node list \<Rightarrow> nat list" where
  "within_roots sem q ctx [] = []"
| "within_roots sem q ctx (f # fs) =
     within sem q ctx False [([], [], None)] f @ within_roots sem q ctx fs"

text \<open>Removal of the elements whose handle is in \<open>ns\<close>, with their subtrees.\<close>

fun has_id :: "nat list \<Rightarrow> node \<Rightarrow> bool" where
  "has_id ns (Txt s) = False"
| "has_id ns (Elem i t as ks) = (i \<in> set ns)"

fun prune :: "nat list \<Rightarrow> node \<Rightarrow> node"
  and prune_kids :: "nat list \<Rightarrow> node list \<Rightarrow> node list" where
  "prune ns (Txt s) = Txt s"
| "prune ns (Elem i t as ks) = Elem i t as (prune_kids ns ks)"
| "prune_kids ns [] = []"
| "prune_kids ns (k # ks) =
     (if has_id ns k then prune_kids ns ks else prune ns k # prune_kids ns ks)"

text \<open>The node behind a handle, its text content and its markup.\<close>

fun lookup :: "nat \<Rightarrow> node \<Rightarrow> node option"
  and lookup_kids :: "nat \<Rightarrow> node list \<Rightarrow> node option" where
  "lookup i (Txt s) = None"
| "lookup i (Elem j t as ks) = (if i = j then Some (Elem j t as ks) else lookup_kids i ks)"
| "lookup_kids i [] = None"
| "lookup_kids i (k # ks) =
     (case lookup i k of Some n \<Rightarrow> Some n | None \<Rightarrow> lookup_kids i ks)"

fun node_text :: "node \<Rightarrow> string"
  and kids_text :: "node list \<Rightarrow> string" where
  "node_text (Txt s) = s"
| "node_text (Elem i t as ks) = kids_text ks"
| "kids_text [] = []"
| "kids_text (k # ks) = node_text k @ kids_text ks"

fun render :: "node \<Rightarrow> string"
  and render_kids :: "node list \<Rightarrow> string" where
  "render (Txt s) = s"
| "render (Elem i t as ks) =
     ''<'' @ t @ concat (map (\<lambda>(k, v). '' '' @ k @ ''='' @ [CHR 0x22] @ v @ [CHR 0x22]) as) @ ''>''
       @ render_kids ks @ ''</'' @ t @ ''>''"
| "render_kids [] = []"
| "render_kids (k # ks) = render k @ render_kids ks"

text \<open>
  Insertion of a node as the last child of an element, wrapping of elements in a
  \<^verbatim>\<open>div\<close> with a given handle, the parents of elements, and renaming (what
  \<^verbatim>\<open>convertNodeTo\<close> does to an element: the tag changes, attributes and children stay).
\<close>

fun add_child :: "nat \<Rightarrow> node \<Rightarrow> node \<Rightarrow> node"
  and add_child_kids :: "nat \<Rightarrow> node \<Rightarrow> node list \<Rightarrow> node list" where
  "add_child w c (Txt s) = Txt s"
| "add_child w c (Elem i t as ks) =
     Elem i t as (add_child_kids w c ks @ (if i = w then [c] else []))"
| "add_child_kids w c [] = []"
| "add_child_kids w c (k # ks) = add_child w c k # add_child_kids w c ks"

fun wrap_node :: "nat \<Rightarrow> nat list \<Rightarrow> node \<Rightarrow> node"
  and wrap_kids :: "nat \<Rightarrow> nat list \<Rightarrow> node list \<Rightarrow> node list" where
  "wrap_node w cs (Txt s) = Txt s"
| "wrap_node w cs (Elem i t as ks) =
     (if i \<in> set cs then Elem w ''div'' [] [Elem i t as (wrap_kids w cs ks)]
      else Elem i t as (wrap_kids w cs ks))"
| "wrap_kids w cs [] = []"
| "wrap_kids w cs (k # ks) = wrap_node w cs k # wrap_kids w cs ks"

fun parents_of :: "nat list \<Rightarrow> node \<Rightarrow> nat list"
  and parents_kids :: "nat list \<Rightarrow> node list \<Rightarrow> nat list" where
  "parents_of cs (Txt s) = []"
| "parents_of cs (Elem i t as ks) =
     (if list_ex (has_id cs) ks then [i] else []) @ parents_kids cs ks"
| "parents_kids cs [] = []"
| "parents_kids cs (k # ks) = parents_of cs k @ parents_kids cs ks"

fun rename :: "nat \<Rightarrow> string \<Rightarrow> node \<Rightarrow> node"
  and rename_kids :: "nat \<Rightarrow> string \<Rightarrow> node list \<Rightarrow> node list" where
  "rename n tag (Txt s) = Txt s"
| "rename n tag (Elem i t as ks) = Elem i (if i = n then tag else t) as (rename_kids n tag ks)"
| "rename_kids n tag [] = []"
| "rename_kids n tag (k # ks) = rename n tag k # rename_kids n tag ks"


text \<open>The operations of the substrate on this model.\<close>

definition tree_lookup :: "doc \<Rightarrow> nat \<Rightarrow> node option" where
  "tree_lookup d i = lookup_kids i (document d @ fragments d)"

definition tree_attr :: "doc \<Rightarrow> nat list \<Rightarrow> string option \<Rightarrow> jsval" where
  "tree_attr d ns name =
     (case ns of
        [] \<Rightarrow> JUndefined
      | i # _ \<Rightarrow>
          (case tree_lookup d i of
             Some (Elem j t as ks) \<Rightarrow>
               (case name of
                  None \<Rightarrow> JObj (map (\<lambda>(k, v). (k, JStr v)) as)
                | Some a \<Rightarrow>
                    if a = [] then JObj (map (\<lambda>(k, v). (k, JStr v)) as)
                    else (case map_of as a of None \<Rightarrow> JUndefined | Some v \<Rightarrow> JStr v))
           | _ \<Rightarrow> JUndefined))"

definition tree_text :: "doc \<Rightarrow> nat list \<Rightarrow> string" where
  "tree_text d ns =
     concat (map (\<lambda>i. case tree_lookup d i of None \<Rightarrow> [] | Some n \<Rightarrow> node_text n) ns)"

definition tree_html :: "doc \<Rightarrow> nat list \<Rightarrow> string" where
  "tree_html d ns =
     concat (map (\<lambda>i. case tree_lookup d i of None \<Rightarrow> [] | Some n \<Rightarrow> render n) ns)"

definition tree_remove :: "nat list \<Rightarrow> doc \<Rightarrow> doc" where
  "tree_remove ns d =
     d\<lparr>document := prune_kids ns (document d), fragments := prune_kids ns (fragments d)\<rparr>"

definition tree_new_div :: "doc \<Rightarrow> nat list \<times> doc" where
  "tree_new_div d =
     ([next_id d],
      d\<lparr>fragments := fragments d @ [Elem (next_id d) ''div'' [] []], next_id := Suc (next_id d)\<rparr>)"

definition tree_append :: "nat list \<Rightarrow> nat \<Rightarrow> doc \<Rightarrow> doc" where
  "tree_append ws el d =
     (case (ws, tree_lookup d el) of
        (w # _, Some n) \<Rightarrow>
          d\<lparr>document := add_child_kids w n (prune_kids [el] (document d)),
            fragments := add_child_kids w n (prune_kids [el] (fragments d))\<rparr>
      | _ \<Rightarrow> d)"

definition tree_wrap :: "nat list \<Rightarrow> nat list \<Rightarrow> doc \<Rightarrow> doc" where
  "tree_wrap cs ws d =
     (case ws of
        [] \<Rightarrow> d
      | w # _ \<Rightarrow>
          d\<lparr>document := wrap_kids w cs (prune_kids [w] (document d)),
            fragments := wrap_kids w cs (prune_kids [w] (fragments d))\<rparr>)"

definition tree_substrate :: "engine \<Rightarrow> (doc, nat) substrate" where
  "tree_substrate sem =
     \<lparr>dollar = (\<lambda>d q.
         case q of None \<Rightarrow> [] | Some s \<Rightarrow> within_kids sem s [] True [] None [] (document d)),
      dollar_in = (\<lambda>d q ctx.
         within_kids sem q ctx False [] None [] (document d)
           @ within_roots sem q ctx (fragments d)),
      attr = tree_attr,
      text_of = tree_text,
      remove_sel = tree_remove,
      new_div = tree_new_div,
      append_to = tree_append,
      wrap = tree_wrap,
      parent = (\<lambda>d cs. parents_kids cs (document d @ fragments d)),
      html = tree_html,
      static_text = tree_text\<rparr>"

text \<open>
  An engine to evaluate with. It reads a fragment of the selector language: a list,
  separated by commas without white space, of type selectors (a name of lower-case letters
  and digits that starts with a letter), each alone or followed by \<^verbatim>\<open>:first-child\<close> (no
  element precedes it among its siblings). It is given no other selector below; a member
  that is outside the fragment matches nothing.
\<close>

fun split_comma :: "string \<Rightarrow> string list" where
  "split_comma [] = [[]]"
| "split_comma (c # cs) =
     (if c = CHR '','' then [] # split_comma cs
      else (case split_comma cs of [] \<Rightarrow> [[c]] | p # ps \<Rightarrow> (c # p) # ps))"

definition is_name :: "string \<Rightarrow> bool" where
  "is_name p =
     (case p of
        [] \<Rightarrow> False
      | c # cs \<Rightarrow>
          c \<in> set ''abcdefghijklmnopqrstuvwxyz''
          \<and> list_all (\<lambda>x. x \<in> set ''abcdefghijklmnopqrstuvwxyz0123456789'') cs)"

fun is_txt :: "node \<Rightarrow> bool" where
  "is_txt (Txt s) = True"
| "is_txt (Elem i t as ks) = False"

definition first_child :: "crumb list \<Rightarrow> bool" where
  "first_child pos =
     (case pos of [] \<Rightarrow> False | (lefts, rights, owner) # up \<Rightarrow> list_all is_txt lefts)"

definition member_matches :: "string \<Rightarrow> crumb list \<Rightarrow> node \<Rightarrow> bool" where
  "member_matches p pos n =
     (case n of
        Txt s \<Rightarrow> False
      | Elem i t as ks \<Rightarrow>
          if is_name p then t = p
          else
            (let k = length p - 12 in
             drop k p = '':first-child'' \<and> is_name (take k p) \<and> t = take k p
               \<and> first_child pos))"

definition lite :: engine where
  "lite q ctx pos n = list_ex (\<lambda>p. member_matches p pos n) (split_comma q)"

definition tree_dom :: "(doc, nat) substrate" where
  "tree_dom = tree_substrate lite"

text \<open>
  Collaborators for the model: renaming for \<^verbatim>\<open>convertNodeTo\<close>; cleaners that keep a region as
  it is, strip a leading \<^verbatim>\<open>By\<close> from an author, turn a lead image that is not an absolute URL
  into \<^verbatim>\<open>null\<close> and keep any other string; a Generic Extractor that answers with fixed values
  and whose own \<^verbatim>\<open>extract\<close> returns a record of several fields.
\<close>

definition tree_convertNodeTo :: "nat list \<Rightarrow> string \<Rightarrow> doc \<Rightarrow> doc" where
  "tree_convertNodeTo ns tag d =
     (case ns of
        [] \<Rightarrow> d
      | n # _ \<Rightarrow>
          d\<lparr>document := rename_kids n tag (document d),
            fragments := rename_kids n tag (fragments d)\<rparr>)"

definition model_cleaner :: "field_type \<Rightarrow> string \<Rightarrow> jsval" where
  "model_cleaner t s =
     (if t = Author \<and> take 2 s = ''By'' then JStr (trim (drop 2 s))
      else if t = LeadImageUrl \<and> take 4 s \<noteq> ''http'' then JNull
      else JStr s)"

definition model_generic :: "field_type \<Rightarrow> jsval" where
  "model_generic t =
     (if t = UrlAndDomain then JNull
      else if t = WordCount then JNum 1
      else JStr ''generic'')"

definition model_env :: "(doc, nat) env" where
  "model_env =
     \<lparr>convertNodeTo = tree_convertNodeTo,
      Cleaners_region = (\<lambda>t c opts d. (c, d)),
      Cleaners_value = (\<lambda>t s opts d. (model_cleaner t s, d)),
      turndown = (\<lambda>s. s),
      GenericExtractor_field = (\<lambda>t opts d. (model_generic t, d)),
      GenericExtractor =
        \<lparr>domain = ''*'', field_rules = (\<lambda>t. None),
         extract_method = (\<lambda>opts d.
           (JObj [(''title'', JStr ''generic''), (''content'', JStr ''generic'')], d))\<rparr>\<rparr>"

text \<open>Options with every key absent, and rules with only their selectors.\<close>

definition no_opts :: "(doc, nat) opts" where
  "no_opts =
     \<lparr>o_type = None, extractor = None, fallback = None, extractionOpts = None,
      extractHtml = None, contentType = None, contentOnly = False,
      extractedTitle = JUndefined, title = JUndefined, content = JUndefined,
      excerpt = JUndefined, o_selectors = None, o_clean = None, o_transforms = None,
      o_defaultCleaner = None\<rparr>"

definition only_selectors :: "selector list \<Rightarrow> (doc, nat) extraction_opts" where
  "only_selectors sels =
     \<lparr>selectors = sels, clean = None, transforms = None, defaultCleaner = None\<rparr>"

text \<open>
  A page to evaluate on: a headline, an image, an article body, a byline and two paragraphs.
  \<open>site\<close> is a custom extractor definition for it with the given rules.
\<close>

definition page :: doc where
  "page =
     \<lparr>document =
        [Elem 0 ''html'' []
           [Elem 1 ''h1'' [] [Txt ''  Breaking News  ''],
            Elem 2 ''img'' [(''src'', '' /hero.png '')] [],
            Elem 3 ''article'' []
              [Elem 4 ''h2'' [] [Txt ''A''], Elem 5 ''h3'' [] [Txt ''B''], Txt ''text''],
            Elem 6 ''span'' [] [Txt ''By''],
            Elem 7 ''p'' [] [Txt ''one''],
            Elem 8 ''p'' [] [Txt ''two'']]],
      fragments = [], next_id = 9\<rparr>"

definition site :: "(field_type \<Rightarrow> (doc, nat) rule option) \<Rightarrow> (doc, nat) extractor_def" where
  "site f =
     \<lparr>domain = ''example.com'', field_rules = f, extract_method = (\<lambda>opts d. (JNull, d))\<rparr>"

text \<open>Two images, each with a source; two paragraphs in a block.\<close>

definition gallery :: doc where
  "gallery =
     \<lparr>document =
        [Elem 0 ''html'' []
           [Elem 1 ''img'' [(''src'', ''a.png'')] [],
            Elem 2 ''img'' [(''src'', ''b.png'')] []]],
      fragments = [], next_id = 3\<rparr>"

text \<open>
  An image whose source is padded with no-break spaces and a line feed, whose \<^verbatim>\<open>alt\<close> is
  white space only, and which has no \<^verbatim>\<open>title\<close>.
\<close>

definition portrait :: doc where
  "portrait =
     \<lparr>document =
        [Elem 0 ''html'' []
           [Elem 1 ''img''
              [(''src'', [CHR 0xA0] @ ''x.png'' @ [CHR 0xA0, CHR 0x0A]),
               (''alt'', [CHR 0xA0, CHR 0x20, CHR 0x09])] []]],
      fragments = [], next_id = 2\<rparr>"

text \<open>A wildcard definition of its own, other than the Generic Extractor of the model.\<close>

definition own_wildcard :: "(doc, nat) extractor_def" where
  "own_wildcard =
     \<lparr>domain = ''*'', field_rules = (\<lambda>t. None),
      extract_method = (\<lambda>opts d.
        (JObj [(''title'', JStr ''own''), (''content'', JStr ''own'')], d))\<rparr>"

definition paragraphs :: doc where
  "paragraphs =
     \<lparr>document = [Elem 0 ''div'' [] [Elem 1 ''p'' [] [Txt ''a''], Elem 2 ''p'' [] [Txt ''b'']]],
      fragments = [], next_id = 3\<rparr>"

text \<open>
  Rules for the article body: \<^verbatim>\<open>h2\<close> becomes \<^verbatim>\<open>h3\<close>, \<^verbatim>\<open>h3\<close> is removed.
\<close>

definition content_rules :: "(doc, nat) extraction_opts" where
  "content_rules =
     \<lparr>selectors = [SStr ''article''], clean = Some [''h3''],
      transforms = Some [(''h2'', ToTag ''h3'')], defaultCleaner = None\<rparr>"

definition clean_only :: "string list \<Rightarrow> (doc, nat) extraction_opts" where
  "clean_only cl = \<lparr>selectors = [], clean = Some cl, transforms = None, defaultCleaner = None\<rparr>"

text \<open>The options \<^verbatim>\<open>extractResult\<close> receives for a field of a definition.\<close>

definition field_opts :: "(doc, nat) extractor_def \<Rightarrow> field_type \<Rightarrow> (doc, nat) opts" where
  "field_opts ex t =
     no_opts\<lparr>extractor := Some \<lparr>domain = domain ex, field_rules = field_rules ex\<rparr>,
             o_type := Some t\<rparr>"
text \<open>Options to resolve the article body in HTML mode and in text mode.\<close>

definition html_opts :: "(doc, nat) opts" where
  "html_opts = no_opts\<lparr>o_type := Some Content, extractHtml := Some True,
                      extractionOpts := Some (Rules content_rules)\<rparr>"

definition text_opts :: "(doc, nat) opts" where
  "text_opts = no_opts\<lparr>o_type := Some Content, extractionOpts := Some (Rules content_rules)\<rparr>"

text \<open>Options to resolve the image source as the given field, from a pair selector.\<close>

definition image_opts :: "field_type \<Rightarrow> bool option \<Rightarrow> (doc, nat) opts" where
  "image_opts t dc =
     no_opts\<lparr>o_type := Some t,
             extractionOpts := Some (Rules
               \<lparr>selectors = [SArr [''img'', ''src'']], clean = Some [''img''],
                transforms = None, defaultCleaner = dc\<rparr>)\<rparr>"
text \<open>
  A selector reads the spine only when its verdict on an element is settled by the handles,
  names and attributes of the element and of its ancestors: siblings and descendants play
  no part.
\<close>

definition spine_only :: "engine \<Rightarrow> string \<Rightarrow> nat list \<Rightarrow> bool" where
  "spine_only sem q ctx =
     (\<forall>pos n pos' n'. spine pos = spine pos' \<and> label n = label n'
        \<longrightarrow> sem q ctx pos n = sem q ctx pos' n')"

section \<open>Selector resolution: first match wins\<close>

lemma js_find_SomeI:
  "p m = Inr True \<Longrightarrow> \<forall>x\<in>set pre. p x = Inr False
     \<Longrightarrow> js_find p (pre @ m # post) = Inr (Some m)"
  by (induction pre) auto

lemma js_find_SomeD:
  "js_find p xs = Inr (Some m) \<Longrightarrow>
     \<exists>pre post. xs = pre @ m # post \<and> p m = Inr True \<and> (\<forall>x\<in>set pre. p x = Inr False)"
proof (induction xs)
  case Nil
  then show ?case by simp
next
  case (Cons x xs)
  show ?case
  proof (cases "p x")
    case (Inl e)
    with Cons.prems show ?thesis by simp
  next
    case (Inr b)
    show ?thesis
    proof (cases b)
      case True
      with Inr Cons.prems have "x = m" by simp
      with Inr True
      have "x # xs = [] @ m # xs \<and> p m = Inr True \<and> (\<forall>y\<in>set []. p y = Inr False)"
        by simp
      then show ?thesis by blast
    next
      case False
      with Inr Cons.prems have "js_find p xs = Inr (Some m)" by simp
      from Cons.IH [OF this] obtain pre post where
        h: "xs = pre @ m # post" "p m = Inr True" "\<forall>y\<in>set pre. p y = Inr False" by blast
      with Inr False
      have "x # xs = (x # pre) @ m # post \<and> p m = Inr True \<and>
          (\<forall>y\<in>set (x # pre). p y = Inr False)" by simp
      then show ?thesis by blast
    qed
  qed
qed

lemma js_find_None_iff:
  "(js_find p xs = Inr None) = (\<forall>x\<in>set xs. p x = Inr False)"
  by (induction xs) (auto split: sum.splits)

lemma js_find_returns:
  "\<forall>x\<in>set xs. \<exists>b. p x = Inr b \<Longrightarrow> \<exists>r. js_find p xs = Inr r"
  by (induction xs) auto

text \<open>
  C1. \<^verbatim>\<open>findMatchingSelector\<close> walks the candidates in their declared order. It returns
  a selector \<open>m\<close> exactly when \<open>m\<close> stands in the list, satisfies the predicate of its shape,
  and every candidate before it evaluates to false; what comes after \<open>m\<close> plays no part. It
  returns none exactly when every candidate evaluates to false. It does return whenever
  the predicate evaluates on every candidate.
\<close>

theorem findMatchingSelector_first_match:
  "(findMatchingSelector S d sels eh = Inr (Some m)) =
     (\<exists>pre post. sels = pre @ m # post \<and> selector_matches S d eh m = Inr True \<and>
        (\<forall>x\<in>set pre. selector_matches S d eh x = Inr False))
   \<and> (findMatchingSelector S d sels eh = Inr None) =
       (\<forall>x\<in>set sels. selector_matches S d eh x = Inr False)
   \<and> ((\<forall>x\<in>set sels. \<exists>b. selector_matches S d eh x = Inr b) \<longrightarrow>
        (\<exists>r. findMatchingSelector S d sels eh = Inr r))"
  unfolding findMatchingSelector_def
  using js_find_SomeD [of "selector_matches S d eh" sels m]
    js_find_SomeI [of "selector_matches S d eh" m]
    js_find_None_iff [of "selector_matches S d eh" sels]
    js_find_returns [of sels "selector_matches S d eh"]
  by blast

text \<open>
  On the page, of the candidates \<^verbatim>\<open>p\<close> (two matches), \<^verbatim>\<open>h1\<close> and \<^verbatim>\<open>article\<close>, the second is
  returned although the third matches too.
\<close>

theorem findMatchingSelector_first_match_witness:
  "findMatchingSelector tree_dom page [SStr ''p'', SStr ''h1'', SStr ''article''] False
     = Inr (Some (SStr ''h1''))
   \<and> selector_matches tree_dom page False (SStr ''article'') = Inr True"
proof -
  have a: "selector_matches tree_dom page False (SStr ''h1'') = Inr True"
    by code_simp
  have b: "\<forall>x\<in>set [SStr ''p'']. selector_matches tree_dom page False x = Inr False"
    by code_simp
  have c: "selector_matches tree_dom page False (SStr ''article'') = Inr True"
    by code_simp
  have "[SStr ''p'', SStr ''h1'', SStr ''article''] = [SStr ''p''] @ SStr ''h1'' # [SStr ''article'']"
    by simp
  with a b have "\<exists>pre post. [SStr ''p'', SStr ''h1'', SStr ''article''] = pre @ SStr ''h1'' # post
      \<and> selector_matches tree_dom page False (SStr ''h1'') = Inr True
      \<and> (\<forall>x\<in>set pre. selector_matches tree_dom page False x = Inr False)"
    by blast
  with c show ?thesis
    using findMatchingSelector_first_match
      [of tree_dom page "[SStr ''p'', SStr ''h1'', SStr ''article'']" False "SStr ''h1''"]
    by simp
qed


section \<open>Pair selectors\<close>

lemma trim_nonempty: "trim v \<noteq> [] \<Longrightarrow> v \<noteq> []"
  by (auto simp: trim_def)

text \<open>
  C2. Outside HTML mode a pair \<^verbatim>\<open>[s, attr]\<close> matches exactly when one element matches
  \<^verbatim>\<open>s\<close> and its attribute \<^verbatim>\<open>attr\<close> is a string that is non-empty once trimmed. It does
  not match when the number of elements matching \<^verbatim>\<open>s\<close> is not one, whatever their
  attributes, nor when the attribute is missing or empty; for one element with a string
  attribute the verdict is whether the trimmed string is non-empty. In HTML mode the pair
  matches exactly when \<^verbatim>\<open>s\<close> and \<^verbatim>\<open>attr\<close>, each read as a selector, match at least one
  element; no attribute is read.
\<close>

theorem pair_selector_matches:
  "(selector_matches S d False (SArr [s, a]) = Inr True) =
     (length (dollar S d (Some s)) = 1 \<and>
      (\<exists>v. attr S d (dollar S d (Some s)) (Some a) = JStr v \<and> trim v \<noteq> []))
   \<and> (length (dollar S d (Some s)) \<noteq> 1 \<longrightarrow>
        selector_matches S d False (SArr [s, a]) = Inr False)
   \<and> (\<not> truthy (attr S d (dollar S d (Some s)) (Some a)) \<longrightarrow>
        selector_matches S d False (SArr [s, a]) = Inr False)
   \<and> (\<forall>v. length (dollar S d (Some s)) = 1
          \<and> attr S d (dollar S d (Some s)) (Some a) = JStr v \<longrightarrow>
        selector_matches S d False (SArr [s, a]) = Inr (trim v \<noteq> []))
   \<and> selector_matches S d True (SArr [s, a])
       = Inr (0 < length (dollar S d (Some s)) \<and> 0 < length (dollar S d (Some a)))"
proof -
  have 1: "(selector_matches S d False (SArr [s, a]) = Inr True) =
     (length (dollar S d (Some s)) = 1 \<and>
      (\<exists>v. attr S d (dollar S d (Some s)) (Some a) = JStr v \<and> trim v \<noteq> []))"
    using trim_nonempty
    by (cases "attr S d (dollar S d (Some s)) (Some a)")
      (auto simp: js_index_def Let_def)
  have 2: "length (dollar S d (Some s)) \<noteq> 1 \<longrightarrow>
        selector_matches S d False (SArr [s, a]) = Inr False"
    by (simp add: js_index_def Let_def)
  have 3: "\<not> truthy (attr S d (dollar S d (Some s)) (Some a)) \<longrightarrow>
        selector_matches S d False (SArr [s, a]) = Inr False"
    by (simp add: js_index_def Let_def)
  have 4: "\<forall>v. length (dollar S d (Some s)) = 1
          \<and> attr S d (dollar S d (Some s)) (Some a) = JStr v \<longrightarrow>
        selector_matches S d False (SArr [s, a]) = Inr (trim v \<noteq> [])"
    by (auto simp: js_index_def Let_def trim_def)
  have 5: "selector_matches S d True (SArr [s, a])
       = Inr (0 < length (dollar S d (Some s)) \<and> 0 < length (dollar S d (Some a)))"
    by simp
  from 1 2 3 4 5 show ?thesis by blast
qed

text \<open>
  The gallery has two images with a source, so the pair does not match there; the page has
  one, so it does. The portrait has one image: its \<^verbatim>\<open>alt\<close> is white space only and trims to
  nothing, it has no \<^verbatim>\<open>title\<close>, and neither pair matches. In HTML mode \<^verbatim>\<open>['h1', 'img']\<close>
  matches the page by existence alone.
\<close>

theorem pair_selector_matches_witness:
  "1 < length (dollar tree_dom gallery (Some ''img''))
   \<and> attr tree_dom gallery (dollar tree_dom gallery (Some ''img'')) (Some ''src'') = JStr ''a.png''
   \<and> selector_matches tree_dom gallery False (SArr [''img'', ''src'']) = Inr False
   \<and> selector_matches tree_dom page False (SArr [''img'', ''src'']) = Inr True
   \<and> attr tree_dom portrait (dollar tree_dom portrait (Some ''img'')) (Some ''alt'')
       = JStr [CHR 0xA0, CHR 0x20, CHR 0x09]
   \<and> selector_matches tree_dom portrait False (SArr [''img'', ''alt'']) = Inr False
   \<and> attr tree_dom portrait (dollar tree_dom portrait (Some ''img'')) (Some ''title'')
       = JUndefined
   \<and> selector_matches tree_dom portrait False (SArr [''img'', ''title'']) = Inr False
   \<and> selector_matches tree_dom page True (SArr [''h1'', ''img'']) = Inr True"
proof -
  have two: "1 < length (dollar tree_dom gallery (Some ''img''))"
    by code_simp
  have src: "attr tree_dom gallery (dollar tree_dom gallery (Some ''img'')) (Some ''src'')
      = JStr ''a.png''"
    by code_simp
  have g: "selector_matches tree_dom gallery False (SArr [''img'', ''src'']) = Inr False"
    using pair_selector_matches [of tree_dom gallery "''img''" "''src''"] two by simp
  have one: "length (dollar tree_dom page (Some ''img'')) = 1"
    by code_simp
  have hero: "attr tree_dom page (dollar tree_dom page (Some ''img'')) (Some ''src'')
      = JStr '' /hero.png ''"
    by code_simp
  have "trim '' /hero.png '' \<noteq> []"
    by code_simp
  with one hero
  have p: "selector_matches tree_dom page False (SArr [''img'', ''src'']) = Inr True"
    using pair_selector_matches [of tree_dom page "''img''" "''src''"] by blast
  have one': "length (dollar tree_dom portrait (Some ''img'')) = 1"
    by code_simp
  have alt: "attr tree_dom portrait (dollar tree_dom portrait (Some ''img'')) (Some ''alt'')
      = JStr [CHR 0xA0, CHR 0x20, CHR 0x09]"
    by code_simp
  have blank: "trim [CHR 0xA0, CHR 0x20, CHR 0x09] = []"
    by code_simp
  have b: "selector_matches tree_dom portrait False (SArr [''img'', ''alt'']) = Inr False"
    using pair_selector_matches [of tree_dom portrait "''img''" "''alt''"] one' alt blank
    by simp
  have none: "attr tree_dom portrait (dollar tree_dom portrait (Some ''img'')) (Some ''title'')
      = JUndefined"
    by code_simp
  have m: "selector_matches tree_dom portrait False (SArr [''img'', ''title'']) = Inr False"
    using pair_selector_matches [of tree_dom portrait "''img''" "''title''"] none
    by simp
  have "0 < length (dollar tree_dom page (Some ''h1''))
      \<and> 0 < length (dollar tree_dom page (Some ''img''))"
    by code_simp
  then have h: "selector_matches tree_dom page True (SArr [''h1'', ''img'']) = Inr True"
    using pair_selector_matches [of tree_dom page "''h1''" "''img''"] by simp
  from two src g p alt b none m h show ?thesis by blast
qed

section \<open>Fallback to the Generic Extractor\<close>

lemma select_absent:
  "extractionOpts opts = None \<Longrightarrow> select S E opts d = Inr (JNull, d)"
  by (simp add: select_def)

lemma select_no_match:
  "extractionOpts opts = Some (Rules r) \<Longrightarrow>
   findMatchingSelector S d (selectors r) (js_default False (extractHtml opts)) = Inr None \<Longrightarrow>
   select S E opts d = Inr (JNull, d)"
  by (simp add: select_def)

lemma extractResult_of_select:
  "extractor opts = Some ex \<Longrightarrow> o_type opts = Some t \<Longrightarrow>
   select S E (opts\<lparr>extractionOpts := field_rules ex t\<rparr>) d = Inr (r, d1) \<Longrightarrow>
   extractResult S E opts d =
     (if truthy r then Inr (r, d1)
      else if js_default True (fallback opts) then Inr (GenericExtractor_field E t opts d1)
      else Inr (JNull, d1))"
  by (simp add: extractResult_def)

lemma fallback_enabled: "js_default True fb = (fb \<noteq> Some False)"
  by (cases fb) auto

text \<open>
  C3. When the field has no rules, or none of its selectors matches, \<^verbatim>\<open>select\<close> yields
  \<^verbatim>\<open>null\<close> and leaves the document as it was; \<^verbatim>\<open>extractResult\<close> then returns what the
  Generic Extractor returns for that field type on the same options and document, unless
  \<^verbatim>\<open>fallback\<close> is false, in which case it returns \<^verbatim>\<open>null\<close>.
\<close>

theorem extractResult_fallback:
  assumes "extractor opts = Some ex" and "o_type opts = Some t"
    and "field_rules ex t = None \<or>
         (\<exists>r. field_rules ex t = Some (Rules r) \<and>
              findMatchingSelector S d (selectors r) (js_default False (extractHtml opts))
                = Inr None)"
  shows "select S E (opts\<lparr>extractionOpts := field_rules ex t\<rparr>) d = Inr (JNull, d)
     \<and> extractResult S E opts d =
        (if fallback opts = Some False then Inr (JNull, d)
         else Inr (GenericExtractor_field E t opts d))"
proof -
  have s: "select S E (opts\<lparr>extractionOpts := field_rules ex t\<rparr>) d = Inr (JNull, d)"
    using assms(3) by (auto simp: select_absent select_no_match)
  with extractResult_of_select [OF assms(1,2) s] show ?thesis
    by (simp add: fallback_enabled)
qed

text \<open>
  On the page the selector \<^verbatim>\<open>p\<close> has two matches, so a title rule made of it alone falls
  back; a field without rules and with \<^verbatim>\<open>fallback: false\<close> resolves to \<^verbatim>\<open>null\<close>.
\<close>

theorem extractResult_fallback_witness:
  "findMatchingSelector tree_dom page [SStr ''p''] False = Inr None
   \<and> extractResult tree_dom model_env
        (field_opts (site (\<lambda>t. Some (Rules (only_selectors [SStr ''p''])))) Title) page
      = Inr (GenericExtractor_field model_env Title
               (field_opts (site (\<lambda>t. Some (Rules (only_selectors [SStr ''p''])))) Title) page)
   \<and> extractResult tree_dom model_env
        ((field_opts (site (\<lambda>t. None)) Dek)\<lparr>fallback := Some False\<rparr>) page
      = Inr (JNull, page)"
proof -
  let ?ex = "site (\<lambda>t. Some (Rules (only_selectors [SStr ''p''])))"
  have nm: "findMatchingSelector tree_dom page [SStr ''p''] False = Inr None"
    by code_simp
  have a: "extractor (field_opts ?ex Title)
      = Some \<lparr>domain = domain ?ex, field_rules = field_rules ?ex\<rparr>"
    and b: "o_type (field_opts ?ex Title) = Some Title"
    and f: "fallback (field_opts ?ex Title) = None"
    and h: "js_default False (extractHtml (field_opts ?ex Title)) = False"
    by (simp_all add: field_opts_def no_opts_def)
  have c: "field_rules \<lparr>domain = domain ?ex, field_rules = field_rules ?ex\<rparr> Title = None \<or>
      (\<exists>r. field_rules \<lparr>domain = domain ?ex, field_rules = field_rules ?ex\<rparr> Title
              = Some (Rules r) \<and>
           findMatchingSelector tree_dom page (selectors r)
             (js_default False (extractHtml (field_opts ?ex Title))) = Inr None)"
    using nm h by (simp add: site_def only_selectors_def)
  have 1: "extractResult tree_dom model_env (field_opts ?ex Title) page
      = Inr (GenericExtractor_field model_env Title (field_opts ?ex Title) page)"
    using extractResult_fallback [OF a b c, where E = model_env] f by simp
  let ?o = "(field_opts (site (\<lambda>t. None)) Dek)\<lparr>fallback := Some False\<rparr>"
  have a': "extractor ?o
      = Some \<lparr>domain = domain (site (\<lambda>t. None)), field_rules = field_rules (site (\<lambda>t. None))\<rparr>"
    and b': "o_type ?o = Some Dek" and f': "fallback ?o = Some False"
    by (simp_all add: field_opts_def no_opts_def)
  have c': "field_rules
        \<lparr>domain = domain (site (\<lambda>t. None)), field_rules = field_rules (site (\<lambda>t. None))\<rparr> Dek
      = None \<or>
      (\<exists>r. field_rules
              \<lparr>domain = domain (site (\<lambda>t. None)), field_rules = field_rules (site (\<lambda>t. None))\<rparr> Dek
              = Some (Rules r) \<and>
           findMatchingSelector tree_dom page (selectors r)
             (js_default False (extractHtml ?o)) = Inr None)"
    by (simp add: site_def)
  have 2: "extractResult tree_dom model_env ?o page = Inr (JNull, page)"
    using extractResult_fallback [OF a' b' c', where E = model_env] f' by simp
  from nm 1 2 show ?thesis by blast
qed

text \<open>
  C10. For every field type, a falsy value from \<^verbatim>\<open>select\<close> (the empty string, zero,
  \<^verbatim>\<open>null\<close>, \<^verbatim>\<open>undefined\<close>) is no result for \<^verbatim>\<open>extractResult\<close>: it is replaced by the
  Generic Extractor's value for the field, run on the document as \<^verbatim>\<open>select\<close> left it, or by
  \<^verbatim>\<open>null\<close> when \<^verbatim>\<open>fallback\<close> is false.
\<close>

theorem extractResult_falsy:
  assumes "extractor opts = Some ex" and "o_type opts = Some t"
    and "select S E (opts\<lparr>extractionOpts := field_rules ex t\<rparr>) d = Inr (r, d1)"
    and "\<not> truthy r"
  shows "extractResult S E opts d =
        (if fallback opts = Some False then Inr (JNull, d1)
         else Inr (GenericExtractor_field E t opts d1))"
  using extractResult_of_select [OF assms(1,2,3)] assms(4)
  by (simp add: fallback_enabled)

text \<open>
  The byline of the page reads \<^verbatim>\<open>By\<close>; the author cleaner of the model leaves the empty
  string, and the author is the Generic Extractor's, also in the record that \<^verbatim>\<open>extract\<close>
  assembles.
\<close>

theorem extractResult_falsy_witness:
  "\<not> truthy (JStr []) \<and> \<not> truthy (JNum 0) \<and> \<not> truthy JNull \<and> \<not> truthy JUndefined
   \<and> select tree_dom model_env
        ((field_opts (site (\<lambda>t. Some (Rules (only_selectors [SStr ''span''])))) Author)
           \<lparr>extractionOpts := Some (Rules (only_selectors [SStr ''span'']))\<rparr>) page
      = Inr (JStr [], page)
   \<and> extractResult tree_dom model_env
        (field_opts (site (\<lambda>t. Some (Rules (only_selectors [SStr ''span''])))) Author) page
      = Inr (JStr ''generic'', page)
   \<and> RootExtractor_extract tree_dom model_env
        (Some (site (\<lambda>t. if t = Author then Some (Rules (only_selectors [SStr ''span'']))
                           else None))) no_opts page
      = Inr (JObj [(''title'', JStr ''generic''), (''content'', JStr ''generic''),
                   (''author'', JStr ''generic''), (''date_published'', JStr ''generic''),
                   (''lead_image_url'', JStr ''generic''), (''dek'', JStr ''generic''),
                   (''next_page_url'', JStr ''generic''), (''url'', JNull),
                   (''domain'', JNull), (''excerpt'', JStr ''generic''),
                   (''word_count'', JNum 1), (''direction'', JStr ''generic'')],
             page)"
proof -
  let ?ex = "site (\<lambda>t. Some (Rules (only_selectors [SStr ''span''])))"
  let ?o = "field_opts ?ex Author"
  have a: "extractor ?o = Some \<lparr>domain = domain ?ex, field_rules = field_rules ?ex\<rparr>"
    and b: "o_type ?o = Some Author" and f: "fallback ?o = None"
    by (simp_all add: field_opts_def no_opts_def)
  have r: "field_rules \<lparr>domain = domain ?ex, field_rules = field_rules ?ex\<rparr> Author
      = Some (Rules (only_selectors [SStr ''span'']))"
    by (simp add: site_def)
  have s: "select tree_dom model_env
        (?o\<lparr>extractionOpts := Some (Rules (only_selectors [SStr ''span'']))\<rparr>) page
      = Inr (JStr [], page)"
    by code_simp
  have g: "GenericExtractor_field model_env Author ?o page = (JStr ''generic'', page)"
    by (simp add: model_env_def model_generic_def)
  have e: "extractResult tree_dom model_env ?o page = Inr (JStr ''generic'', page)"
    using extractResult_falsy [OF a b, where S = tree_dom and E = model_env and d = page
        and r = "JStr []" and ?d1.0 = page] r s f g
    by simp
  have x: "RootExtractor_extract tree_dom model_env
        (Some (site (\<lambda>t. if t = Author then Some (Rules (only_selectors [SStr ''span'']))
                           else None))) no_opts page
      = Inr (JObj [(''title'', JStr ''generic''), (''content'', JStr ''generic''),
                   (''author'', JStr ''generic''), (''date_published'', JStr ''generic''),
                   (''lead_image_url'', JStr ''generic''), (''dek'', JStr ''generic''),
                   (''next_page_url'', JStr ''generic''), (''url'', JNull),
                   (''domain'', JNull), (''excerpt'', JStr ''generic''),
                   (''word_count'', JNum 1), (''direction'', JStr ''generic'')],
             page)"
    by code_simp
  from s e x show ?thesis by simp
qed

text \<open>
  C6, amended. If the rules of a field are a non-empty string constant, \<^verbatim>\<open>select\<close> returns
  that string and leaves the document alone, and \<^verbatim>\<open>extractResult\<close> returns it too, without
  a call of the Generic Extractor.
\<close>

theorem literal_rule:
  assumes "s \<noteq> []"
  shows "(extractionOpts opts = Some (Literal s) \<longrightarrow> select S E opts d = Inr (JStr s, d))
    \<and> (extractor opts = Some ex \<and> o_type opts = Some t \<and> field_rules ex t = Some (Literal s)
         \<longrightarrow> extractResult S E opts d = Inr (JStr s, d))"
proof -
  have 1: "extractionOpts opts = Some (Literal s) \<longrightarrow> select S E opts d = Inr (JStr s, d)"
    using assms by (simp add: select_def)
  have 2: "extractor opts = Some ex \<and> o_type opts = Some t \<and> field_rules ex t = Some (Literal s)
         \<longrightarrow> extractResult S E opts d = Inr (JStr s, d)"
  proof (intro impI, elim conjE)
    assume a: "extractor opts = Some ex" "o_type opts = Some t"
      "field_rules ex t = Some (Literal s)"
    have "select S E (opts\<lparr>extractionOpts := field_rules ex t\<rparr>) d = Inr (JStr s, d)"
      using assms a(3) by (simp add: select_def)
    from extractResult_of_select [OF a(1,2) this] assms
    show "extractResult S E opts d = Inr (JStr s, d)"
      by simp
  qed
  from 1 2 show ?thesis by blast
qed

text \<open>A fixed author credit on the page.\<close>

theorem literal_rule_witness:
  "select tree_dom model_env
     ((field_opts (site (\<lambda>t. Some (Literal ''Wikipedia contributors''))) Author)
        \<lparr>extractionOpts := Some (Literal ''Wikipedia contributors'')\<rparr>) page
     = Inr (JStr ''Wikipedia contributors'', page)
   \<and> extractResult tree_dom model_env
       (field_opts (site (\<lambda>t. Some (Literal ''Wikipedia contributors''))) Author) page
     = Inr (JStr ''Wikipedia contributors'', page)"
proof -
  let ?ex = "site (\<lambda>t. Some (Literal ''Wikipedia contributors''))"
  let ?o = "field_opts ?ex Author"
  have n: "''Wikipedia contributors'' \<noteq> []" by simp
  have a: "extractor ?o = Some \<lparr>domain = domain ?ex, field_rules = field_rules ?ex\<rparr>"
    and b: "o_type ?o = Some Author"
    by (simp_all add: field_opts_def no_opts_def)
  have r: "field_rules \<lparr>domain = domain ?ex, field_rules = field_rules ?ex\<rparr> Author
      = Some (Literal ''Wikipedia contributors'')"
    by (simp add: site_def)
  have e: "extractionOpts (?o\<lparr>extractionOpts := Some (Literal ''Wikipedia contributors'')\<rparr>)
      = Some (Literal ''Wikipedia contributors'')"
    by simp
  from literal_rule [OF n, of "?o\<lparr>extractionOpts := Some (Literal ''Wikipedia contributors'')\<rparr>"
      tree_dom model_env page] e
  have 1: "select tree_dom model_env
      (?o\<lparr>extractionOpts := Some (Literal ''Wikipedia contributors'')\<rparr>) page
     = Inr (JStr ''Wikipedia contributors'', page)" by blast
  from literal_rule [OF n, of ?o tree_dom model_env page
      "\<lparr>domain = domain ?ex, field_rules = field_rules ?ex\<rparr>" Author] a b r
  have 2: "extractResult tree_dom model_env ?o page = Inr (JStr ''Wikipedia contributors'', page)"
    by blast
  from 1 2 show ?thesis by blast
qed

text \<open>
  C6 as stated fails for the empty string constant: \<^verbatim>\<open>!extractionOpts\<close> holds for it, so
  \<^verbatim>\<open>select\<close> returns \<^verbatim>\<open>null\<close> instead of the string, and \<^verbatim>\<open>extractResult\<close> returns the
  Generic Extractor's value.
\<close>

theorem literal_rule_counterexample:
  "select tree_dom model_env
     ((field_opts (site (\<lambda>t. Some (Literal []))) Author)
        \<lparr>extractionOpts := Some (Literal [])\<rparr>) page
     = Inr (JNull, page)
   \<and> extractResult tree_dom model_env (field_opts (site (\<lambda>t. Some (Literal []))) Author) page
     = Inr (GenericExtractor_field model_env Author
              (field_opts (site (\<lambda>t. Some (Literal []))) Author) page)
   \<and> GenericExtractor_field model_env Author
        (field_opts (site (\<lambda>t. Some (Literal []))) Author) page
     = (JStr ''generic'', page)"
  by (simp add: select_def extractResult_def field_opts_def no_opts_def site_def model_env_def
      model_generic_def)


section \<open>Order of mutation\<close>

text \<open>
  C4. With a matching selector \<open>m\<close>, \<^verbatim>\<open>select\<close> in HTML mode transforms the region first and
  cleans the transformed region second, before the field's cleaner and the rendering (for
  a \<^verbatim>\<open>contentType\<close> it does not know, before the rest of the function runs). In text mode
  it cleans the matched node first and transforms it second, and takes the trimmed text of
  the outcome.
\<close>

theorem select_mutation_order:
  assumes "extractionOpts opts = Some (Rules r)" and "o_type opts = Some t"
    and "findMatchingSelector S d (selectors r) (js_default False (extractHtml opts)) = Inr (Some m)"
    and "m \<noteq> SStr []"
  shows "(js_default False (extractHtml opts) \<longrightarrow>
           select S E opts d =
             (let (c1, d1) = html_region S m d;
                  (c2, d2) = transformElements S E c1 r d1;
                  (c3, d3) = cleanBySelectors S c2 r d2;
                  (c4, d4) = Cleaners_region E t c3
                     (with_defaultCleaner opts (js_default True (defaultCleaner r))) d3
              in case render_region S E (js_default Html (contentType opts)) d4 c4 of
                   Some v \<Rightarrow> Inr (v, d4)
                 | None \<Rightarrow> select_value S E opts r m d4))
     \<and> (\<not> js_default False (extractHtml opts) \<longrightarrow> (\<forall>s. m = SStr s \<longrightarrow>
           select S E opts d =
             (let (n1, d1) = cleanBySelectors S (dollar S d (Some s)) r d;
                  (n2, d2) = transformElements S E n1 r d1;
                  txt = trim (text_of S d2 n2)
              in if js_default True (defaultCleaner r)
                 then Inr (Cleaners_value E t txt (spread_rules opts r) d2)
                 else Inr (JStr txt, d2))))"
proof (intro conjI impI allI)
  assume eh: "js_default False (extractHtml opts)"
  with assms have "select S E opts d =
      bindE (select_html S E opts r m d)
        (\<lambda>(rendered, d'). case rendered of Some v \<Rightarrow> Inr (v, d')
                           | None \<Rightarrow> select_value S E opts r m d')"
    by (simp add: select_def)
  then show "select S E opts d =
             (let (c1, d1) = html_region S m d;
                  (c2, d2) = transformElements S E c1 r d1;
                  (c3, d3) = cleanBySelectors S c2 r d2;
                  (c4, d4) = Cleaners_region E t c3
                     (with_defaultCleaner opts (js_default True (defaultCleaner r))) d3
              in case render_region S E (js_default Html (contentType opts)) d4 c4 of
                   Some v \<Rightarrow> Inr (v, d4)
                 | None \<Rightarrow> select_value S E opts r m d4)"
    using assms(2)
    by (simp add: select_html_def Let_def case_prod_beta split: option.splits)
next
  fix s
  assume eh: "\<not> js_default False (extractHtml opts)" and m: "m = SStr s"
  with assms have "select S E opts d = select_value S E opts r (SStr s) d"
    by (simp add: select_def)
  then show "select S E opts d =
             (let (n1, d1) = cleanBySelectors S (dollar S d (Some s)) r d;
                  (n2, d2) = transformElements S E n1 r d1;
                  txt = trim (text_of S d2 n2)
              in if js_default True (defaultCleaner r)
                 then Inr (Cleaners_value E t txt (spread_rules opts r) d2)
                 else Inr (JStr txt, d2))"
    using assms(2) by (simp add: select_value_def Let_def split_def)
qed

text \<open>
  The article of the page holds an \<^verbatim>\<open>h2\<close>, an \<^verbatim>\<open>h3\<close> and text; the rules turn \<^verbatim>\<open>h2\<close> into
  \<^verbatim>\<open>h3\<close> and remove \<^verbatim>\<open>h3\<close>. In HTML mode both headings are gone (transformed, then
  cleaned); in text mode the former \<^verbatim>\<open>h2\<close> stays (cleaned, then transformed).
\<close>

theorem select_mutation_order_witness:
  "select tree_dom model_env html_opts page
     = Inr (JStr ''<div><article>text</article></div>'',
        \<lparr>document =
           [Elem 0 ''html'' []
              [Elem 1 ''h1'' [] [Txt ''  Breaking News  ''],
               Elem 2 ''img'' [(''src'', '' /hero.png '')] [],
               Elem 9 ''div'' [] [Elem 3 ''article'' [] [Txt ''text'']],
               Elem 6 ''span'' [] [Txt ''By''], Elem 7 ''p'' [] [Txt ''one''],
               Elem 8 ''p'' [] [Txt ''two'']]],
         fragments = [], next_id = 10\<rparr>)
   \<and> select tree_dom model_env text_opts page
     = Inr (JStr ''Atext'',
        \<lparr>document =
           [Elem 0 ''html'' []
              [Elem 1 ''h1'' [] [Txt ''  Breaking News  ''],
               Elem 2 ''img'' [(''src'', '' /hero.png '')] [],
               Elem 3 ''article'' [] [Elem 4 ''h3'' [] [Txt ''A''], Txt ''text''],
               Elem 6 ''span'' [] [Txt ''By''], Elem 7 ''p'' [] [Txt ''one''],
               Elem 8 ''p'' [] [Txt ''two'']]],
         fragments = [], next_id = 9\<rparr>)"
proof -
  have r: "extractionOpts html_opts = Some (Rules content_rules)"
    and t: "o_type html_opts = Some Content"
    and h: "js_default False (extractHtml html_opts)"
    by (simp_all add: html_opts_def no_opts_def)
  have f: "findMatchingSelector tree_dom page (selectors content_rules)
      (js_default False (extractHtml html_opts)) = Inr (Some (SStr ''article''))"
    by code_simp
  have n: "SStr ''article'' \<noteq> SStr []" by simp
  note select_mutation_order
    [OF r t f n, where E = model_env, THEN conjunct1, THEN mp, OF h]
  also have "(let (c1, d1) = html_region tree_dom (SStr ''article'') page;
                  (c2, d2) = transformElements tree_dom model_env c1 content_rules d1;
                  (c3, d3) = cleanBySelectors tree_dom c2 content_rules d2;
                  (c4, d4) = Cleaners_region model_env Content c3
                     (with_defaultCleaner html_opts
                        (js_default True (defaultCleaner content_rules))) d3
              in case render_region tree_dom model_env
                        (js_default Html (contentType html_opts)) d4 c4 of
                   Some v \<Rightarrow> Inr (v, d4)
                 | None \<Rightarrow> select_value tree_dom model_env html_opts content_rules
                             (SStr ''article'') d4)
     = (Inr (JStr ''<div><article>text</article></div>'',
        \<lparr>document =
           [Elem 0 ''html'' []
              [Elem 1 ''h1'' [] [Txt ''  Breaking News  ''],
               Elem 2 ''img'' [(''src'', '' /hero.png '')] [],
               Elem 9 ''div'' [] [Elem 3 ''article'' [] [Txt ''text'']],
               Elem 6 ''span'' [] [Txt ''By''], Elem 7 ''p'' [] [Txt ''one''],
               Elem 8 ''p'' [] [Txt ''two'']]],
         fragments = [], next_id = 10\<rparr>) :: error + jsval \<times> doc)"
    by code_simp
  finally have 1: "select tree_dom model_env html_opts page
     = Inr (JStr ''<div><article>text</article></div>'',
        \<lparr>document =
           [Elem 0 ''html'' []
              [Elem 1 ''h1'' [] [Txt ''  Breaking News  ''],
               Elem 2 ''img'' [(''src'', '' /hero.png '')] [],
               Elem 9 ''div'' [] [Elem 3 ''article'' [] [Txt ''text'']],
               Elem 6 ''span'' [] [Txt ''By''], Elem 7 ''p'' [] [Txt ''one''],
               Elem 8 ''p'' [] [Txt ''two'']]],
         fragments = [], next_id = 10\<rparr>)" .
  have r': "extractionOpts text_opts = Some (Rules content_rules)"
    and t': "o_type text_opts = Some Content"
    and h': "\<not> js_default False (extractHtml text_opts)"
    by (simp_all add: text_opts_def no_opts_def)
  have f': "findMatchingSelector tree_dom page (selectors content_rules)
      (js_default False (extractHtml text_opts)) = Inr (Some (SStr ''article''))"
    by code_simp
  note select_mutation_order
    [OF r' t' f' n, where E = model_env, THEN conjunct2, THEN mp, OF h', THEN spec,
     THEN mp, OF refl]
  also have "(let (n1, d1) = cleanBySelectors tree_dom (dollar tree_dom page (Some ''article''))
                    content_rules page;
                  (n2, d2) = transformElements tree_dom model_env n1 content_rules d1;
                  txt = trim (text_of tree_dom d2 n2)
              in if js_default True (defaultCleaner content_rules)
                 then Inr (Cleaners_value model_env Content txt
                             (spread_rules text_opts content_rules) d2)
                 else Inr (JStr txt, d2))
     = (Inr (JStr ''Atext'',
        \<lparr>document =
           [Elem 0 ''html'' []
              [Elem 1 ''h1'' [] [Txt ''  Breaking News  ''],
               Elem 2 ''img'' [(''src'', '' /hero.png '')] [],
               Elem 3 ''article'' [] [Elem 4 ''h3'' [] [Txt ''A''], Txt ''text''],
               Elem 6 ''span'' [] [Txt ''By''], Elem 7 ''p'' [] [Txt ''one''],
               Elem 8 ''p'' [] [Txt ''two'']]],
         fragments = [], next_id = 9\<rparr>) :: error + jsval \<times> doc)"
    by code_simp
  finally have 2: "select tree_dom model_env text_opts page
     = Inr (JStr ''Atext'',
        \<lparr>document =
           [Elem 0 ''html'' []
              [Elem 1 ''h1'' [] [Txt ''  Breaking News  ''],
               Elem 2 ''img'' [(''src'', '' /hero.png '')] [],
               Elem 3 ''article'' [] [Elem 4 ''h3'' [] [Txt ''A''], Txt ''text''],
               Elem 6 ''span'' [] [Txt ''By''], Elem 7 ''p'' [] [Txt ''one''],
               Elem 8 ''p'' [] [Txt ''two'']]],
         fragments = [], next_id = 9\<rparr>)" .
  from 1 2 show ?thesis by (rule conjI)
qed


section \<open>Attribute mode\<close>

lemma findMatchingSelector_SomeD:
  "findMatchingSelector S d sels eh = Inr (Some m) \<Longrightarrow> selector_matches S d eh m = Inr True"
  unfolding findMatchingSelector_def by (blast dest: js_find_SomeD)

lemma attr_of_match:
  assumes "selector_matches S d False (SArr xs) = Inr True"
  shows "\<exists>v. attr S d (dollar S d (js_index xs 0)) (js_index xs 1) = JStr v \<and> trim v \<noteq> []
           \<and> length (dollar S d (js_index xs 0)) = 1"
  using assms
  by (cases "attr S d (dollar S d (js_index xs 0)) (js_index xs 1)")
    (auto simp: Let_def split: if_splits)

text \<open>
  C5, amended. When a pair selector matched outside HTML mode, \<^verbatim>\<open>select\<close> reads the named
  attribute of the single matched element and trims it; no clean selector is applied and
  no transform, the document stays as it was. The trimmed value is then handed to the
  cleaner of the field type, whose result is returned; it is returned as it is only when
  the rules set \<^verbatim>\<open>defaultCleaner\<close> to false.
\<close>

theorem select_attribute_mode:
  assumes "extractionOpts opts = Some (Rules r)"
    and "js_default False (extractHtml opts) = False"
    and "findMatchingSelector S d (selectors r) False = Inr (Some (SArr xs))"
    and "o_type opts = Some t"
  shows "\<exists>v. attr S d (dollar S d (js_index xs 0)) (js_index xs 1) = JStr v
      \<and> length (dollar S d (js_index xs 0)) = 1
      \<and> select S E opts d =
          (if defaultCleaner r = Some False then Inr (JStr (trim v), d)
           else Inr (Cleaners_value E t (trim v) (spread_rules opts r) d))"
proof -
  from attr_of_match [OF findMatchingSelector_SomeD [OF assms(3)]]
  obtain v where v: "attr S d (dollar S d (js_index xs 0)) (js_index xs 1) = JStr v"
    and l: "length (dollar S d (js_index xs 0)) = 1" by blast
  have dc: "js_default True (defaultCleaner r) = (defaultCleaner r \<noteq> Some False)"
    by (cases "defaultCleaner r") auto
  have "select S E opts d = select_value S E opts r (SArr xs) d"
    using assms(1,2,3) by (simp add: select_def)
  also have "\<dots> = (if defaultCleaner r = Some False then Inr (JStr (trim v), d)
           else Inr (Cleaners_value E t (trim v) (spread_rules opts r) d))"
    using v dc assms(4) by (simp add: select_value_def)
  finally show ?thesis using v l by blast
qed

text \<open>
  The image source of the page, with the cleaner switched off, and as a title, which the
  cleaner of the model keeps. The clean selector \<^verbatim>\<open>img\<close> of the rules removes nothing.
  The source of the portrait loses its no-break spaces and its line feed.
\<close>

theorem select_attribute_mode_witness:
  "select tree_dom model_env (image_opts LeadImageUrl (Some False)) page
     = Inr (JStr ''/hero.png'', page)
   \<and> select tree_dom model_env (image_opts Title None) page = Inr (JStr ''/hero.png'', page)
   \<and> attr tree_dom portrait (dollar tree_dom portrait (Some ''img'')) (Some ''src'')
       = JStr ([CHR 0xA0] @ ''x.png'' @ [CHR 0xA0, CHR 0x0A])
   \<and> select tree_dom model_env (image_opts LeadImageUrl (Some False)) portrait
     = Inr (JStr ''x.png'', portrait)"
proof -
  let ?r = "\<lparr>selectors = [SArr [''img'', ''src'']], clean = Some [''img''],
             transforms = None, defaultCleaner = Some False\<rparr> :: (doc, nat) extraction_opts"
  have a: "extractionOpts (image_opts LeadImageUrl (Some False)) = Some (Rules ?r)"
    and b: "js_default False (extractHtml (image_opts LeadImageUrl (Some False))) = False"
    and t: "o_type (image_opts LeadImageUrl (Some False)) = Some LeadImageUrl"
    by (simp_all add: image_opts_def no_opts_def)
  have f: "findMatchingSelector tree_dom page (selectors ?r) False
      = Inr (Some (SArr [''img'', ''src'']))"
    by code_simp
  have at: "attr tree_dom page (dollar tree_dom page (js_index [''img'', ''src''] 0))
      (js_index [''img'', ''src''] 1) = JStr '' /hero.png ''"
    by code_simp
  have tr: "trim '' /hero.png '' = ''/hero.png''"
    by code_simp
  from select_attribute_mode [OF a b f t, of model_env] at tr
  have 1: "select tree_dom model_env (image_opts LeadImageUrl (Some False)) page
     = Inr (JStr ''/hero.png'', page)"
    by auto
  let ?r' = "\<lparr>selectors = [SArr [''img'', ''src'']], clean = Some [''img''],
             transforms = None, defaultCleaner = None\<rparr> :: (doc, nat) extraction_opts"
  have a': "extractionOpts (image_opts Title None) = Some (Rules ?r')"
    and b': "js_default False (extractHtml (image_opts Title None)) = False"
    and t': "o_type (image_opts Title None) = Some Title"
    by (simp_all add: image_opts_def no_opts_def)
  have f': "findMatchingSelector tree_dom page (selectors ?r') False
      = Inr (Some (SArr [''img'', ''src'']))"
    by code_simp
  have c: "Cleaners_value model_env Title ''/hero.png'' (spread_rules (image_opts Title None) ?r')
      page = (JStr ''/hero.png'', page)"
    by (simp add: model_env_def model_cleaner_def)
  from select_attribute_mode [OF a' b' f' t', of model_env] at tr c
  have 2: "select tree_dom model_env (image_opts Title None) page = Inr (JStr ''/hero.png'', page)"
    by auto
  have f'': "findMatchingSelector tree_dom portrait (selectors ?r) False
      = Inr (Some (SArr [''img'', ''src'']))"
    by code_simp
  have at': "attr tree_dom portrait (dollar tree_dom portrait (js_index [''img'', ''src''] 0))
      (js_index [''img'', ''src''] 1) = JStr ([CHR 0xA0] @ ''x.png'' @ [CHR 0xA0, CHR 0x0A])"
    by code_simp
  have at'': "attr tree_dom portrait (dollar tree_dom portrait (Some ''img'')) (Some ''src'')
       = JStr ([CHR 0xA0] @ ''x.png'' @ [CHR 0xA0, CHR 0x0A])"
    by code_simp
  have tr': "trim ([CHR 0xA0] @ ''x.png'' @ [CHR 0xA0, CHR 0x0A]) = ''x.png''"
    by code_simp
  from select_attribute_mode [OF a b f'' t, of model_env] at' tr'
  have 3: "select tree_dom model_env (image_opts LeadImageUrl (Some False)) portrait
     = Inr (JStr ''x.png'', portrait)"
    by auto
  from 1 2 at'' 3 show ?thesis by simp
qed

text \<open>
  C5 as stated fails: resolved as the lead image with the default cleaner, the source
  \<^verbatim>\<open>/hero.png\<close> of the page is not what \<^verbatim>\<open>select\<close> returns, because the cleaner of the
  field type turns a relative URL into \<^verbatim>\<open>null\<close>.
\<close>

theorem select_attribute_mode_counterexample:
  "findMatchingSelector tree_dom page [SArr [''img'', ''src'']] False
     = Inr (Some (SArr [''img'', ''src'']))
   \<and> attr tree_dom page (dollar tree_dom page (Some ''img'')) (Some ''src'') = JStr '' /hero.png ''
   \<and> trim '' /hero.png '' = ''/hero.png''
   \<and> select tree_dom model_env (image_opts LeadImageUrl None) page = Inr (JNull, page)"
  by code_simp


section \<open>Content only, and the default of the URL pair\<close>

text \<open>
  C7, amended. Called with \<^verbatim>\<open>contentOnly\<close> and a definition that is not the wildcard,
  \<^verbatim>\<open>extract\<close> resolves the content field alone, in HTML mode, with \<^verbatim>\<open>extractedTitle\<close> as
  the title and the caller's \<^verbatim>\<open>contentType\<close> (HTML when absent); it returns a record whose
  only key is \<^verbatim>\<open>content\<close>, and the document as that one resolution left it. Called with
  a wildcard definition, it returns what that definition's own \<^verbatim>\<open>extract\<close> returns on the
  caller's options, with \<^verbatim>\<open>contentOnly\<close> or without; called with no definition, it does so
  with the Generic Extractor, which is a wildcard.
\<close>

theorem extract_contentOnly:
  "(domain ex \<noteq> ''*'' \<and> contentOnly opts \<longrightarrow>
      RootExtractor_extract S E (Some ex) opts d =
        (case extractResult S E
           (opts\<lparr>extractor := Some \<lparr>domain = domain ex, field_rules = field_rules ex\<rparr>,
                 o_type := Some Content, extractHtml := Some True,
                 title := extractedTitle opts,
                 contentType := Some (js_default Html (contentType opts))\<rparr>) d of
           Inl e \<Rightarrow> Inl e
         | Inr (v, d1) \<Rightarrow> Inr (JObj [(''content'', v)], d1)))
   \<and> (domain ex = ''*'' \<longrightarrow>
        RootExtractor_extract S E (Some ex) opts d = Inr (extract_method ex opts d))
   \<and> (domain (GenericExtractor E) = ''*'' \<longrightarrow>
        RootExtractor_extract S E None opts d
          = Inr (extract_method (GenericExtractor E) opts d))"
proof (intro conjI impI)
  assume "domain ex \<noteq> ''*'' \<and> contentOnly opts"
  then show "RootExtractor_extract S E (Some ex) opts d =
        (case extractResult S E
           (opts\<lparr>extractor := Some \<lparr>domain = domain ex, field_rules = field_rules ex\<rparr>,
                 o_type := Some Content, extractHtml := Some True,
                 title := extractedTitle opts,
                 contentType := Some (js_default Html (contentType opts))\<rparr>) d of
           Inl e \<Rightarrow> Inl e
         | Inr (v, d1) \<Rightarrow> Inr (JObj [(''content'', v)], d1))"
    by (simp add: RootExtractor_extract_def Let_def split: sum.splits)
next
  assume "domain ex = ''*''"
  then show "RootExtractor_extract S E (Some ex) opts d = Inr (extract_method ex opts d)"
    by (simp add: RootExtractor_extract_def)
next
  assume "domain (GenericExtractor E) = ''*''"
  then show "RootExtractor_extract S E None opts d
      = Inr (extract_method (GenericExtractor E) opts d)"
    by (simp add: RootExtractor_extract_def)
qed

text \<open>
  The body of the page as plain text: one key, no markup. A wildcard definition of its
  own answers for itself, with \<^verbatim>\<open>contentOnly\<close> and without.
\<close>

theorem extract_contentOnly_witness:
  "RootExtractor_extract tree_dom model_env
     (Some (site (\<lambda>t. if t = Content then Some (Rules content_rules) else None)))
     (no_opts\<lparr>contentOnly := True, contentType := Some Text, extractedTitle := JStr ''News''\<rparr>)
     page
   = Inr (JObj [(''content'', JStr ''text'')],
        \<lparr>document =
           [Elem 0 ''html'' []
              [Elem 1 ''h1'' [] [Txt ''  Breaking News  ''],
               Elem 2 ''img'' [(''src'', '' /hero.png '')] [],
               Elem 9 ''div'' [] [Elem 3 ''article'' [] [Txt ''text'']],
               Elem 6 ''span'' [] [Txt ''By''], Elem 7 ''p'' [] [Txt ''one''],
               Elem 8 ''p'' [] [Txt ''two'']]],
         fragments = [], next_id = 10\<rparr>)
   \<and> RootExtractor_extract tree_dom model_env (Some own_wildcard)
        (no_opts\<lparr>contentOnly := True\<rparr>) page
     = Inr (JObj [(''title'', JStr ''own''), (''content'', JStr ''own'')], page)
   \<and> RootExtractor_extract tree_dom model_env (Some own_wildcard) no_opts page
     = Inr (JObj [(''title'', JStr ''own''), (''content'', JStr ''own'')], page)
   \<and> RootExtractor_extract tree_dom model_env None (no_opts\<lparr>contentOnly := True\<rparr>) page
     = Inr (JObj [(''title'', JStr ''generic''), (''content'', JStr ''generic'')], page)"
proof -
  let ?ex = "site (\<lambda>t. if t = Content then Some (Rules content_rules) else None)"
  let ?o = "no_opts\<lparr>contentOnly := True, contentType := Some Text,
                    extractedTitle := JStr ''News''\<rparr>"
  have a: "domain ?ex \<noteq> ''*'' \<and> contentOnly ?o" by (simp add: site_def)
  note extract_contentOnly
    [where ex = ?ex and opts = ?o and S = tree_dom and E = model_env and d = page,
     THEN conjunct1, THEN mp, OF a]
  also have "(case extractResult tree_dom model_env
        (?o\<lparr>extractor := Some \<lparr>domain = domain ?ex, field_rules = field_rules ?ex\<rparr>,
              o_type := Some Content, extractHtml := Some True,
              title := extractedTitle ?o,
              contentType := Some (js_default Html (contentType ?o))\<rparr>) page of
        Inl e \<Rightarrow> Inl e
      | Inr (v, d1) \<Rightarrow> Inr (JObj [(''content'', v)], d1))
     = (Inr (JObj [(''content'', JStr ''text'')],
        \<lparr>document =
           [Elem 0 ''html'' []
              [Elem 1 ''h1'' [] [Txt ''  Breaking News  ''],
               Elem 2 ''img'' [(''src'', '' /hero.png '')] [],
               Elem 9 ''div'' [] [Elem 3 ''article'' [] [Txt ''text'']],
               Elem 6 ''span'' [] [Txt ''By''], Elem 7 ''p'' [] [Txt ''one''],
               Elem 8 ''p'' [] [Txt ''two'']]],
         fragments = [], next_id = 10\<rparr>) :: error + jsval \<times> doc)"
    by code_simp
  finally have 1: "RootExtractor_extract tree_dom model_env (Some ?ex) ?o page
   = Inr (JObj [(''content'', JStr ''text'')],
        \<lparr>document =
           [Elem 0 ''html'' []
              [Elem 1 ''h1'' [] [Txt ''  Breaking News  ''],
               Elem 2 ''img'' [(''src'', '' /hero.png '')] [],
               Elem 9 ''div'' [] [Elem 3 ''article'' [] [Txt ''text'']],
               Elem 6 ''span'' [] [Txt ''By''], Elem 7 ''p'' [] [Txt ''one''],
               Elem 8 ''p'' [] [Txt ''two'']]],
         fragments = [], next_id = 10\<rparr>)" .
  have w: "domain own_wildcard = ''*''" by (simp add: own_wildcard_def)
  have m: "\<And>x. extract_method own_wildcard x page
      = (JObj [(''title'', JStr ''own''), (''content'', JStr ''own'')], page)"
    by (simp add: own_wildcard_def)
  have 2: "RootExtractor_extract tree_dom model_env (Some own_wildcard)
        (no_opts\<lparr>contentOnly := True\<rparr>) page
     = Inr (JObj [(''title'', JStr ''own''), (''content'', JStr ''own'')], page)"
    using extract_contentOnly
      [where ex = own_wildcard and opts = "no_opts\<lparr>contentOnly := True\<rparr>" and S = tree_dom
         and E = model_env and d = page] w m
    by simp
  have 3: "RootExtractor_extract tree_dom model_env (Some own_wildcard) no_opts page
     = Inr (JObj [(''title'', JStr ''own''), (''content'', JStr ''own'')], page)"
    using extract_contentOnly
      [where ex = own_wildcard and opts = no_opts and S = tree_dom
         and E = model_env and d = page] w m
    by simp
  have g: "domain (GenericExtractor model_env) = ''*''" by (simp add: model_env_def)
  have gm: "\<And>x. extract_method (GenericExtractor model_env) x page
      = (JObj [(''title'', JStr ''generic''), (''content'', JStr ''generic'')], page)"
    by (simp add: model_env_def)
  have 4: "RootExtractor_extract tree_dom model_env None (no_opts\<lparr>contentOnly := True\<rparr>) page
     = Inr (JObj [(''title'', JStr ''generic''), (''content'', JStr ''generic'')], page)"
    using extract_contentOnly
      [where ex = own_wildcard and opts = "no_opts\<lparr>contentOnly := True\<rparr>" and S = tree_dom
         and E = model_env and d = page] g gm
    by simp
  from 1 2 3 4 show ?thesis by simp
qed

text \<open>
  C7 as stated fails for a wildcard definition, passed or taken by default: the test on
  the domain comes first, and the definition's own \<^verbatim>\<open>extract\<close> decides what is returned;
  here records with a title, the passed definition's own and the Generic Extractor's.
\<close>

theorem extract_contentOnly_counterexample:
  "domain own_wildcard = ''*''
   \<and> contentOnly (no_opts\<lparr>contentOnly := True\<rparr>)
   \<and> RootExtractor_extract tree_dom model_env (Some own_wildcard)
        (no_opts\<lparr>contentOnly := True\<rparr>) page
      = Inr (JObj [(''title'', JStr ''own''), (''content'', JStr ''own'')], page)
   \<and> domain (GenericExtractor model_env) = ''*''
   \<and> RootExtractor_extract tree_dom model_env None (no_opts\<lparr>contentOnly := True\<rparr>) page
      = Inr (JObj [(''title'', JStr ''generic''), (''content'', JStr ''generic'')], page)"
  by (simp add: RootExtractor_extract_def model_env_def own_wildcard_def)

text \<open>
  C8. Let the ten fields before it resolve, in the order of the source and each on the
  document the previous one left. If the resolution of \<^verbatim>\<open>url_and_domain\<close> then returns a
  falsy value, \<^verbatim>\<open>extract\<close> does not fail: it returns the record of the ten values with
  \<^verbatim>\<open>url\<close> and \<^verbatim>\<open>domain\<close> both \<^verbatim>\<open>null\<close>.
\<close>

theorem url_and_domain_default:
  assumes "domain ex \<noteq> ''*''" and "\<not> contentOnly opts"
    and "cfg = opts\<lparr>extractor := Some \<lparr>domain = domain ex, field_rules = field_rules ex\<rparr>\<rparr>"
    and "extractResult S E (cfg\<lparr>o_type := Some Title\<rparr>) d = Inr (v_title, d1)"
    and "extractResult S E (cfg\<lparr>o_type := Some DatePublished\<rparr>) d1 = Inr (v_date_published, d2)"
    and "extractResult S E (cfg\<lparr>o_type := Some Author\<rparr>) d2 = Inr (v_author, d3)"
    and "extractResult S E (cfg\<lparr>o_type := Some NextPageUrl\<rparr>) d3 = Inr (v_next_page_url, d4)"
    and "extractResult S E
           (cfg\<lparr>o_type := Some Content, extractHtml := Some True, title := v_title\<rparr>) d4
         = Inr (v_content, d5)"
    and "extractResult S E (cfg\<lparr>o_type := Some LeadImageUrl, content := v_content\<rparr>) d5
         = Inr (v_lead_image_url, d6)"
    and "extractResult S E (cfg\<lparr>o_type := Some Excerpt, content := v_content\<rparr>) d6
         = Inr (v_excerpt, d7)"
    and "extractResult S E
           (cfg\<lparr>o_type := Some Dek, content := v_content, excerpt := v_excerpt\<rparr>) d7
         = Inr (v_dek, d8)"
    and "extractResult S E (cfg\<lparr>o_type := Some WordCount, content := v_content\<rparr>) d8
         = Inr (v_word_count, d9)"
    and "extractResult S E (cfg\<lparr>o_type := Some Direction, title := v_title\<rparr>) d9
         = Inr (v_direction, d10)"
    and "extractResult S E (cfg\<lparr>o_type := Some UrlAndDomain\<rparr>) d10 = Inr (r, d11)"
    and "\<not> truthy r"
  shows "RootExtractor_extract S E (Some ex) opts d =
     Inr (JObj [(''title'', v_title), (''content'', v_content), (''author'', v_author),
                (''date_published'', v_date_published),
                (''lead_image_url'', v_lead_image_url), (''dek'', v_dek),
                (''next_page_url'', v_next_page_url), (''url'', JNull),
                (''domain'', JNull), (''excerpt'', v_excerpt),
                (''word_count'', v_word_count), (''direction'', v_direction)],
          d11)"
  using assms(1,2,15) assms(4-14) [unfolded assms(3)]
  by (simp add: RootExtractor_extract_def Let_def)

text \<open>A definition without rules leaves every field to the Generic Extractor.\<close>

lemma generic_only:
  "extractor opts = Some \<lparr>domain = dm, field_rules = (\<lambda>t. None)\<rparr> \<Longrightarrow> o_type opts = Some t
   \<Longrightarrow> fallback opts = None
   \<Longrightarrow> extractResult tree_dom model_env opts d = Inr (model_generic t, d)"
  by (simp add: extractResult_def select_def model_env_def)

text \<open>The Generic Extractor of the model finds no URL on the page.\<close>

theorem url_and_domain_default_witness:
  "RootExtractor_extract tree_dom model_env (Some (site (\<lambda>t. None))) no_opts page =
     Inr (JObj [(''title'', JStr ''generic''), (''content'', JStr ''generic''),
                (''author'', JStr ''generic''), (''date_published'', JStr ''generic''),
                (''lead_image_url'', JStr ''generic''), (''dek'', JStr ''generic''),
                (''next_page_url'', JStr ''generic''), (''url'', JNull),
                (''domain'', JNull), (''excerpt'', JStr ''generic''),
                (''word_count'', JNum 1), (''direction'', JStr ''generic'')],
          page)"
proof -
  let ?ex = "site (\<lambda>t. None)"
  let ?cfg = "no_opts\<lparr>extractor := Some \<lparr>domain = domain ?ex, field_rules = field_rules ?ex\<rparr>\<rparr>"
  have a: "domain ?ex \<noteq> ''*''" by (simp add: site_def)
  have b: "\<not> contentOnly no_opts" by (simp add: no_opts_def)
  have f: "field_rules ?ex = (\<lambda>t. None)" by (simp add: site_def)
  have g: "\<And>t. model_generic t =
      (if t = UrlAndDomain then JNull else if t = WordCount then JNum 1 else JStr ''generic'')"
    by (simp add: model_generic_def)
  have n: "\<not> truthy JNull" by simp
  show ?thesis
    using url_and_domain_default [OF a b refl, where S = tree_dom and E = model_env
        and d = page and ?d1.0 = page and ?d2.0 = page and ?d3.0 = page and ?d4.0 = page
        and ?d5.0 = page and ?d6.0 = page and ?d7.0 = page and ?d8.0 = page and ?d9.0 = page
        and ?d10.0 = page and ?d11.0 = page and r = JNull
        and v_title = "JStr ''generic''" and v_date_published = "JStr ''generic''"
        and v_author = "JStr ''generic''" and v_next_page_url = "JStr ''generic''"
        and v_content = "JStr ''generic''" and v_lead_image_url = "JStr ''generic''"
        and v_excerpt = "JStr ''generic''" and v_dek = "JStr ''generic''"
        and v_word_count = "JNum 1" and v_direction = "JStr ''generic''"]
    by (simp add: generic_only f g no_opts_def)
qed


section \<open>Clean removal applied twice\<close>

lemma has_id_nil: "\<not> has_id [] k"
  by (cases k) simp_all

lemma prune_nil: "prune [] n = n" "prune_kids [] ks = ks"
  by (induction "[]::nat list" n and "[]::nat list" ks rule: prune_prune_kids.induct)
    (simp_all add: has_id_nil)

text \<open>
  Where the selector reads the spine only, removing a set of elements that holds every
  match leaves no match: a survivor keeps its spine, and did not match before.
\<close>

lemma within_prune:
  assumes st: "spine_only sem q ctx"
  shows "set (within sem q ctx inside pos n) \<subseteq> set ns \<Longrightarrow> \<not> has_id ns n
           \<Longrightarrow> spine pos = spine pos'
           \<Longrightarrow> within sem q ctx inside pos' (prune ns n) = []"
    and "set (within_kids sem q ctx inside up owner lefts ks) \<subseteq> set ns
           \<Longrightarrow> spine up = spine up'
           \<Longrightarrow> within_kids sem q ctx inside up' owner lefts' (prune_kids ns ks) = []"
proof (induction ns n and ns ks arbitrary: inside pos pos' and inside up up' owner lefts lefts'
    rule: prune_prune_kids.induct)
  case (1 ns s)
  show ?case by simp
next
  case (2 ns i t as ks)
  from "2.prems"(1,2) have a: "\<not> (inside \<and> sem q ctx pos (Elem i t as ks))" by auto
  have "sem q ctx pos' (Elem i t as (prune_kids ns ks)) = sem q ctx pos (Elem i t as ks)"
    using st "2.prems"(3) unfolding spine_only_def by (metis label.simps(2))
  with a have b: "\<not> (inside \<and> sem q ctx pos' (Elem i t as (prune_kids ns ks)))" by simp
  from "2.prems"(1)
  have "set (within_kids sem q ctx (inside \<or> i \<in> set ctx) pos (Some (i, t, as)) [] ks)
      \<subseteq> set ns" by simp
  from "2.IH" [OF this "2.prems"(3)] b show ?case by simp
next
  case (3 ns)
  show ?case by simp
next
  case (4 ns k ks)
  from "4.prems"(1)
  have k: "set (within sem q ctx inside ((lefts, ks, owner) # up) k) \<subseteq> set ns"
    and ks: "set (within_kids sem q ctx inside up owner (lefts @ [k]) ks) \<subseteq> set ns"
    by simp_all
  show ?case
  proof (cases "has_id ns k")
    case True
    with "4.IH"(1) [OF True ks "4.prems"(2)] show ?thesis by simp
  next
    case False
    have sp: "spine ((lefts, ks, owner) # up)
        = spine ((lefts', prune_kids ns ks, owner) # up')"
      using "4.prems"(2) by (simp add: spine_def)
    from "4.IH"(2) [OF False k False sp] "4.IH"(3) [OF False ks "4.prems"(2)] False
    show ?thesis by simp
  qed
qed

lemma within_roots_prune:
  assumes st: "spine_only sem q ctx"
  shows "set (within_roots sem q ctx fs) \<subseteq> set ns
           \<Longrightarrow> within_roots sem q ctx (prune_kids ns fs) = []"
proof (induction fs)
  case Nil
  show ?case by simp
next
  case (Cons f fs)
  from Cons.prems have f: "set (within sem q ctx False [([], [], None)] f) \<subseteq> set ns"
    and fs: "set (within_roots sem q ctx fs) \<subseteq> set ns" by simp_all
  show ?case
  proof (cases "has_id ns f")
    case True
    with Cons.IH [OF fs] show ?thesis by simp
  next
    case False
    with within_prune(1) [OF st f False refl] Cons.IH [OF fs] show ?thesis by simp
  qed
qed

text \<open>The engine of the examples reads the spine only when no member has a pseudo-class.\<close>

lemma split_comma_chars: "p \<in> set (split_comma q) \<Longrightarrow> set p \<subseteq> set q"
proof (induction q arbitrary: p)
  case Nil
  then show ?case by simp
next
  case (Cons c cs)
  show ?case
  proof (cases "c = CHR '',''")
    case True
    with Cons show ?thesis by auto
  next
    case False
    show ?thesis
    proof (cases "split_comma cs")
      case Nil
      with False Cons.prems show ?thesis by simp
    next
      case (Cons r rs)
      with False Cons.prems have "p = c # r \<or> p \<in> set rs" by simp
      then show ?thesis
      proof
        assume "p = c # r"
        moreover from Cons Cons.IH [of r] \<open>split_comma cs = r # rs\<close> have "set r \<subseteq> set cs" by simp
        ultimately show ?thesis by auto
      next
        assume "p \<in> set rs"
        with Cons.IH [of p] \<open>split_comma cs = r # rs\<close> show ?thesis by auto
      qed
    qed
  qed
qed

lemma member_matches_plain:
  assumes "CHR '':'' \<notin> set p" and "label n = label n'"
  shows "member_matches p pos n = member_matches p pos' n'"
proof -
  have "drop (length p - 12) p \<noteq> '':first-child''"
  proof
    assume "drop (length p - 12) p = '':first-child''"
    then have "CHR '':'' \<in> set (drop (length p - 12) p)" by simp
    then have "CHR '':'' \<in> set p" by (rule in_set_dropD)
    with assms(1) show False by simp
  qed
  with assms(2) show ?thesis
    by (cases n; cases n') (simp_all add: member_matches_def Let_def)
qed

lemma lite_spine_only:
  assumes "CHR '':'' \<notin> set q"
  shows "spine_only lite q ctx"
proof -
  have "\<And>p. p \<in> set (split_comma q) \<Longrightarrow> CHR '':'' \<notin> set p"
    using split_comma_chars assms by blast
  then show ?thesis
    unfolding spine_only_def lite_def list_ex_iff
    using member_matches_plain by blast
qed

lemma join_comma_chars:
  "c \<in> set (join_comma xs) \<Longrightarrow> c = CHR '','' \<or> (\<exists>x\<in>set xs. c \<in> set x)"
  by (induction xs rule: join_comma.induct) auto

text \<open>
  C9, amended. On element trees, with any selector engine: when the combined selector of
  the clean list reads the spine only (its verdict on an element depends on the element's
  own name and attributes and on those of its ancestors, not on siblings or descendants),
  applying \<^verbatim>\<open>cleanBySelectors\<close> a second time with the same list to the cleaned region
  changes nothing.
\<close>

theorem clean_idempotent_spine:
  assumes "\<And>cl. clean r = Some cl \<Longrightarrow> spine_only sem (join_comma cl) c"
  shows "cleanBySelectors (tree_substrate sem) c r
           (snd (cleanBySelectors (tree_substrate sem) c r d))
         = cleanBySelectors (tree_substrate sem) c r d"
proof (cases "clean r")
  case None
  then show ?thesis by (simp add: cleanBySelectors_def)
next
  case (Some cl)
  let ?q = "join_comma cl"
  let ?T = "tree_substrate sem"
  let ?ns = "dollar_in ?T d ?q c"
  note st = assms [OF Some]
  have "set (within_kids sem ?q c False [] None [] (document d)) \<subseteq> set ?ns"
    and "set (within_roots sem ?q c (fragments d)) \<subseteq> set ?ns"
    by (simp_all add: tree_substrate_def)
  then have "within_kids sem ?q c False [] None [] (prune_kids ?ns (document d)) = []"
    and "within_roots sem ?q c (prune_kids ?ns (fragments d)) = []"
    using within_prune(2) [OF st, where up = "[]" and up' = "[]"]
      within_roots_prune [OF st] by blast+
  then have e: "dollar_in ?T (remove_sel ?T ?ns d) ?q c = []"
    by (simp add: tree_substrate_def tree_remove_def)
  have "remove_sel ?T [] (remove_sel ?T ?ns d) = remove_sel ?T ?ns d"
    by (simp add: tree_substrate_def tree_remove_def prune_nil)
  with e show ?thesis using Some by (simp add: cleanBySelectors_def)
qed

text \<open>The headings and paragraphs of the page, removed once and for all.\<close>

theorem clean_idempotent_spine_witness:
  "cleanBySelectors (tree_substrate lite) [0] (clean_only [''h3'', ''p''])
     (snd (cleanBySelectors (tree_substrate lite) [0] (clean_only [''h3'', ''p'']) page))
   = ([0],
      \<lparr>document =
         [Elem 0 ''html'' []
            [Elem 1 ''h1'' [] [Txt ''  Breaking News  ''],
             Elem 2 ''img'' [(''src'', '' /hero.png '')] [],
             Elem 3 ''article'' [] [Elem 4 ''h2'' [] [Txt ''A''], Txt ''text''],
             Elem 6 ''span'' [] [Txt ''By'']]],
       fragments = [], next_id = 9\<rparr>)"
proof -
  have h: "\<And>cl. clean (clean_only [''h3'', ''p'']) = Some cl
      \<Longrightarrow> spine_only lite (join_comma cl) [0]"
  proof -
    fix cl
    assume "clean (clean_only [''h3'', ''p'']) = Some cl"
    then have "cl = [''h3'', ''p'']" by (simp add: clean_only_def)
    then have "CHR '':'' \<notin> set (join_comma cl)" by simp
    then show "spine_only lite (join_comma cl) [0]" by (rule lite_spine_only)
  qed
  note clean_idempotent_spine [OF h, where d = page]
  also have "cleanBySelectors (tree_substrate lite) [0] (clean_only [''h3'', ''p'']) page
   = ([0],
      \<lparr>document =
         [Elem 0 ''html'' []
            [Elem 1 ''h1'' [] [Txt ''  Breaking News  ''],
             Elem 2 ''img'' [(''src'', '' /hero.png '')] [],
             Elem 3 ''article'' [] [Elem 4 ''h2'' [] [Txt ''A''], Txt ''text''],
             Elem 6 ''span'' [] [Txt ''By'']]],
       fragments = [], next_id = 9\<rparr>)"
    by code_simp
  finally show ?thesis .
qed

text \<open>
  C9 as stated fails for a structural selector. With the clean list \<^verbatim>\<open>['p:first-child']\<close>
  and a block of two paragraphs, the first application removes the first paragraph; the
  second paragraph is then the first child, and the second application removes it.
\<close>

theorem clean_idempotent_counterexample:
  "cleanBySelectors tree_dom [0] (clean_only [''p:first-child'']) paragraphs
     = ([0], \<lparr>document = [Elem 0 ''div'' [] [Elem 2 ''p'' [] [Txt ''b'']]],
              fragments = [], next_id = 3\<rparr>)
   \<and> cleanBySelectors tree_dom [0] (clean_only [''p:first-child''])
       (snd (cleanBySelectors tree_dom [0] (clean_only [''p:first-child'']) paragraphs))
     = ([0], \<lparr>document = [Elem 0 ''div'' [] []], fragments = [], next_id = 3\<rparr>)
   \<and> cleanBySelectors tree_dom [0] (clean_only [''p:first-child''])
       (snd (cleanBySelectors tree_dom [0] (clean_only [''p:first-child'']) paragraphs))
     \<noteq> cleanBySelectors tree_dom [0] (clean_only [''p:first-child'']) paragraphs"
  by code_simp

end
